theory Spec2Isabelle
  imports Main
begin

section \<open>Python strings\<close>

text \<open>
  A Python \<open>str\<close> is a sequence of code points. The model covers the code points
  0..255, one \<^typ>\<open>char\<close> each, so \<open>len\<close> is \<^const>\<open>length\<close>. On this range
  \<open>str.lower\<close> maps A..Z and the capital letters 0xC0..0xDE (0xD7, the multiplication
  sign, apart) to the code point 32 higher and keeps the length, and the characters that
  \<open>str.strip\<close> removes are 0x09..0x0D, 0x1C..0x20, 0x85 and 0xA0.
\<close>

definition py_lower_char :: "char \<Rightarrow> char" where
  "py_lower_char c =
     (let n = (of_char c :: nat) in
      if (65 \<le> n \<and> n \<le> 90) \<or> (192 \<le> n \<and> n \<le> 222 \<and> n \<noteq> 215)
      then char_of (n + 32) else c)"

definition lower :: "string \<Rightarrow> string" where
  "lower s = map py_lower_char s"

definition py_isspace :: "char \<Rightarrow> bool" where
  "py_isspace c =
     (let n = (of_char c :: nat) in
      (9 \<le> n \<and> n \<le> 13) \<or> (28 \<le> n \<and> n \<le> 32) \<or> n = 133 \<or> n = 160)"

definition lstrip :: "string \<Rightarrow> string" where
  "lstrip s = dropWhile py_isspace s"

definition rstrip :: "string \<Rightarrow> string" where
  "rstrip s = rev (dropWhile py_isspace (rev s))"

definition strip :: "string \<Rightarrow> string" where
  "strip s = lstrip (rstrip s)"

text \<open>\<open>s.startswith(p)\<close> and \<open>s.endswith(p)\<close>.\<close>

definition startswith :: "string \<Rightarrow> string \<Rightarrow> bool" where
  "startswith s p = (take (length p) s = p)"

definition endswith :: "string \<Rightarrow> string \<Rightarrow> bool" where
  "endswith s p = (length p \<le> length s \<and> drop (length s - length p) s = p)"

text \<open>\<open>needle in hay\<close> on strings: \<open>needle\<close> occurs as a contiguous part of \<open>hay\<close>.\<close>

fun py_in :: "string \<Rightarrow> string \<Rightarrow> bool" where
  "py_in needle [] = (needle = [])"
| "py_in needle (c # cs) = (startswith (c # cs) needle \<or> py_in needle cs)"

text \<open>\<open>sep.join(parts)\<close>.\<close>

fun join :: "string \<Rightarrow> string list \<Rightarrow> string" where
  "join sep [] = []"
| "join sep [p] = p"
| "join sep (p # q # ps) = p @ sep @ join sep (q # ps)"

text \<open>\<open>str(n)\<close> for a natural number, as an f-string formats it.\<close>

definition digit_char :: "nat \<Rightarrow> char" where
  "digit_char d = char_of (48 + d)"

fun str_nat :: "nat \<Rightarrow> string" where
  "str_nat n = (if n < 10 then [digit_char n] else str_nat (n div 10) @ [digit_char (n mod 10)])"

declare str_nat.simps [simp del]

section \<open>Removing conversational wrapping from a response\<close>

text \<open>
  The two lists of \<open>_generate_single_prompt_core\<close> and the list of
  \<open>run_vision_generation\<close>.
\<close>

definition unwanted_starts :: "string list" where
  "unwanted_starts =
     [''Okay, here's the prompt:'', ''Okay, here is the prompt:'', ''Here's the prompt:'',
      ''Here is the prompt:'', ''Sure, here's a prompt:'', ''Sure, here is a prompt:'',
      ''Here's a prompt for you:'', ''Here is a prompt for you:'', ''Prompt:'',
      ''Generated Prompt:'', ''Okay, here's a variation:'', ''Here's another variation:'']"

definition unwanted_ends :: "string list" where
  "unwanted_ends =
     [''Let me know if you'd like another one!'', ''Hope this helps!'',
      ''Is there anything else I can help with?'']"

definition vision_unwanted_starts :: "string list" where
  "vision_unwanted_starts =
     [''Prompt:'', ''Here's a prompt based on the image:'', ''Image Description Prompt:'',
      ''Video Prompt Idea:'']"

text \<open>
  \<open>for phrase in phrases: if text.lower().startswith(phrase.lower()):
  text = text[len(phrase):].lstrip(); break\<close>
\<close>

fun strip_unwanted_start :: "string list \<Rightarrow> string \<Rightarrow> string" where
  "strip_unwanted_start [] generated_text = generated_text"
| "strip_unwanted_start (phrase # phrases) generated_text =
     (if startswith (lower generated_text) (lower phrase)
      then lstrip (drop (length phrase) generated_text)
      else strip_unwanted_start phrases generated_text)"

text \<open>
  \<open>for phrase in phrases: if text.lower().endswith(phrase.lower()):
  text = text[:-len(phrase)].rstrip(); break\<close>. The slice \<open>text[:-k]\<close> keeps the
  first \<open>len(text) - k\<close> characters when \<open>0 < k \<le> len(text)\<close>, which a match of a
  phrase of the list gives.
\<close>

fun strip_unwanted_end :: "string list \<Rightarrow> string \<Rightarrow> string" where
  "strip_unwanted_end [] generated_text = generated_text"
| "strip_unwanted_end (phrase # phrases) generated_text =
     (if endswith (lower generated_text) (lower phrase)
      then rstrip (take (length generated_text - length phrase) generated_text)
      else strip_unwanted_end phrases generated_text)"

text \<open>
  What \<open>_generate_single_prompt_core\<close> does to \<open>response.text\<close> (TEXT jobs), and what
  \<open>run_vision_generation\<close> does to it before the empty-description placeholder
  (VISION jobs).
\<close>

definition sanitize_text :: "string \<Rightarrow> string" where
  "sanitize_text response_text =
     strip (strip_unwanted_end unwanted_ends
              (strip_unwanted_start unwanted_starts (strip response_text)))"

definition sanitize_vision :: "string \<Rightarrow> string" where
  "sanitize_vision response_text =
     strip_unwanted_start vision_unwanted_starts (strip response_text)"

text \<open>The first phrase of a list that the text starts (ends) with, case-insensitively.\<close>

definition first_start :: "string list \<Rightarrow> string \<Rightarrow> string option" where
  "first_start phrases t = find (\<lambda>p. startswith (lower t) (lower p)) phrases"

definition first_end :: "string list \<Rightarrow> string \<Rightarrow> string option" where
  "first_end phrases t = find (\<lambda>p. endswith (lower t) (lower p)) phrases"

text \<open>No phrase of the list occurs anywhere in the text, case-insensitively.\<close>

definition free_of :: "string list \<Rightarrow> string \<Rightarrow> bool" where
  "free_of phrases t = list_all (\<lambda>p. \<not> py_in (lower p) (lower t)) phrases"

text \<open>A string with no whitespace at either end.\<close>

definition trimmed :: "string \<Rightarrow> bool" where
  "trimmed s = (s = [] \<or> (\<not> py_isspace (hd s) \<and> \<not> py_isspace (last s)))"

section \<open>The worker\<close>

text \<open>
  The remote capability, an external collaborator: \<open>generate_content\<close> followed by
  \<open>response.text\<close> either raises, and \<open>Inl\<close> carries \<open>str(e)\<close> of the exception, or
  gives the response text. The text capability takes the position of the call within the
  job (the variation index) and the payload; the vision capability takes the instruction
  and the image.
\<close>

datatype pil_image = PIL_Image string

type_synonym text_remote = "nat \<Rightarrow> string \<Rightarrow> string + string"
type_synonym vision_remote = "string \<Rightarrow> pil_image \<Rightarrow> string + string"

text \<open>
  The module-level state: the three values fixed by the configuration block at start-up
  (\<open>None\<close> is a model that was never initialised), the two model names, and
  \<open>num_variations_for_worker\<close>, which the submitting side writes.
\<close>

record globals =
  GEMINI_API_KEY_VALID :: bool
  text_model :: "text_remote option"
  vision_model :: "vision_remote option"
  TEXT_MODEL_NAME_TO_TRY :: string
  VISION_MODEL_NAME_TO_TRY :: string
  num_variations_for_worker :: int

text \<open>The fields that \<open>GeminiWorker.__init__\<close> sets.\<close>

record worker =
  query :: string
  context_field :: string
  num_variations :: int
  operation_type :: string
  pil_image :: "pil_image option"
  quit_requested :: bool

text \<open>
  The places where the worker reads \<open>self.quit_requested\<close>: in \<open>run\<close>, at the head of
  iteration \<open>i\<close> of the loop of \<open>run_text_generation\<close>, at the head of
  \<open>_generate_single_prompt_core\<close> for variation \<open>i\<close>, at the head of
  \<open>run_vision_generation\<close>, and just before its remote call. The foreground may set
  the flag at any time while the job runs: \<open>ui cp\<close> tells whether it has done so by the
  time the worker reaches \<open>cp\<close>. The flag is never reset.
\<close>

datatype checkpoint =
  RunEntry | LoopHead nat | CoreEntry nat | VisionEntry | VisionPreCall

definition quit_seen :: "worker \<Rightarrow> (checkpoint \<Rightarrow> bool) \<Rightarrow> checkpoint \<Rightarrow> bool" where
  "quit_seen w ui cp = (quit_requested w \<or> ui cp)"

text \<open>
  What a job does that others can observe, in order: the remote calls it issues and the
  signals it emits.
\<close>

datatype event =
  text_generate_content string
| vision_generate_content string pil_image
| result_ready "string list"
| error_occurred string
| finished

definition system_instruction :: string where
  "system_instruction =
     ''You are PromptCraft AI, an expert prompt engineering assistant. '' @
     ''Your SOLE task is to generate a highly detailed, evocative, and comprehensive prompt suitable for an advanced AI image, video, or text generator, based on the user's request. '' @
     ''The prompt should be rich in descriptive adjectives, specific nouns, and clearly articulate desired aesthetics, mood, and composition. '' @
     ''Consider elements like subject details, environment, artistic style, lighting, camera view, color palette, and emotional tone. '' @
     ''DO NOT include any conversational preambles, explanations, or any text other than the prompt itself. '' @
     ''The output MUST be ONLY the generated prompt. '' @
     ''If asked for variations, ensure each variation is distinct, creative, and also ONLY the prompt, maintaining a high level of detail.''"

definition variation_prompts :: "string list" where
  "variation_prompts =
     [''Provide another distinctly detailed variation based on the core request.'',
      ''Offer a slightly different creative and highly descriptive take on the same core idea, delivering only the prompt.'',
      ''Generate an alternative version of the prompt, exploring a different angle with rich detail, outputting only the prompt.'',
      ''Give one more unique and detailed variant for this prompt idea, as only the prompt itself.'']"

text \<open>
  The payload of \<open>_generate_single_prompt_core\<close>; \<open>nvars\<close> is the value of the global
  \<open>num_variations_for_worker\<close> when it is read.
\<close>

definition variation_modifier :: "int \<Rightarrow> nat \<Rightarrow> string" where
  "variation_modifier nvars variation_idx =
     (if nvars > 1 \<and> variation_idx > 0
      then ''\<newline>\<newline>Instruction for this specific variation (out of several): ''
           @ variation_prompts ! (variation_idx mod length variation_prompts)
           @ '' Ensure maximum detail and output only the prompt.''
      else [])"

definition gemini_prompt_payload :: "int \<Rightarrow> string \<Rightarrow> string \<Rightarrow> nat \<Rightarrow> string" where
  "gemini_prompt_payload nvars user_query context_instruction variation_idx =
     (system_instruction
      @ (if context_instruction \<noteq> []
         then ''\<newline>Context for this specific request: The user is trying to generate a ''
              @ [CHR 0x27] @ context_instruction @ [CHR 0x27]
              @ ''. Emphasize detail and richness for this type of prompt.''
         else []))
     @ ''\<newline>\<newline>User's Request Details (aim for high detail):\<newline>''
     @ user_query @ variation_modifier nvars variation_idx"

definition api_error_text :: "nat \<Rightarrow> string \<Rightarrow> string" where
  "api_error_text variation_idx e =
     ''API Error (Text Gen - Variation '' @ str_nat (variation_idx + 1) @ ''): '' @ e"

definition text_model_missing :: "globals \<Rightarrow> string" where
  "text_model_missing g =
     ''Text model ('' @ [CHR 0x27] @ TEXT_MODEL_NAME_TO_TRY g @ [CHR 0x27]
     @ '') is not initialized. Cannot generate text-based prompt.''"

text \<open>
  \<open>_generate_single_prompt_core\<close>: the remote calls it issued and the string it returns.
  The \<open>ConnectionError\<close> raised for a missing text model is caught by the function's own
  \<open>except Exception\<close>, like an exception of the remote call.
\<close>

definition generate_single_prompt_core ::
  "globals \<Rightarrow> (checkpoint \<Rightarrow> bool) \<Rightarrow> worker \<Rightarrow> string \<Rightarrow> string \<Rightarrow> nat \<Rightarrow> event list \<times> string" where
  "generate_single_prompt_core g ui w user_query context_instruction variation_idx =
     (if quit_seen w ui (CoreEntry variation_idx) then ([], ''Operation cancelled by user.'')
      else
        let payload = gemini_prompt_payload (num_variations_for_worker g) user_query
                        context_instruction variation_idx
        in case text_model g of
             None \<Rightarrow> ([], api_error_text variation_idx (text_model_missing g))
           | Some model \<Rightarrow>
               (case model variation_idx payload of
                  Inl e \<Rightarrow> ([text_generate_content payload], api_error_text variation_idx e)
                | Inr response_text \<Rightarrow>
                    ([text_generate_content payload], sanitize_text response_text)))"

text \<open>
  The loop of \<open>run_text_generation\<close> over the indices still to do: the remote calls
  issued and \<open>all_results\<close> at the end. The worker reads the global
  \<open>num_variations_for_worker\<close> for the range of the loop and again for each payload,
  not its own field \<open>num_variations\<close>; \<open>g\<close> holds the value that the global has while the
  job runs.
\<close>

fun text_loop ::
  "globals \<Rightarrow> (checkpoint \<Rightarrow> bool) \<Rightarrow> worker \<Rightarrow> nat list \<Rightarrow> string list \<Rightarrow> event list \<times> string list" where
  "text_loop g ui w [] all_results = ([], all_results)"
| "text_loop g ui w (i # rest) all_results =
     (if quit_seen w ui (LoopHead i)
      then ([], all_results @ [''Batch operation cancelled by user.''])
      else
        let (calls, result) = generate_single_prompt_core g ui w (query w) (context_field w) i;
            (calls', results) = text_loop g ui w rest (all_results @ [result])
        in (calls @ calls', results))"

definition run_text_generation :: "globals \<Rightarrow> (checkpoint \<Rightarrow> bool) \<Rightarrow> worker \<Rightarrow> event list" where
  "run_text_generation g ui w =
     (let (calls, all_results) =
            text_loop g ui w [0 ..< nat (num_variations_for_worker g)] []
      in calls @ [result_ready all_results, finished])"

definition video_instruction :: string where
  "video_instruction =
     ''You are PromptCraft AI. Analyze the provided static image with extreme detail. '' @
     ''Your task is to formulate ONLY a comprehensive and highly descriptive text prompt suitable for an AI VIDEO generator. '' @
     ''Infer a potential short narrative or sequence of events from the image. Describe potential character actions, motivations, and interactions. '' @
     ''Suggest dynamic camera movements (e.g., slow pan revealing a secret, rapid dolly zoom for tension, orbiting shot), '' @
     ''and consider scene transitions that could bring this static image to life as a compelling short video clip. '' @
     ''Elaborate on the visual style, lighting evolution, and atmospheric shifts that should occur. '' @
     ''DO NOT include any conversational text, preamble, or explanation. Output ONLY the video prompt string, rich with evocative language.''"

definition image_instruction :: string where
  "image_instruction =
     ''You are PromptCraft AI. Analyze the provided image with meticulous detail. '' @
     ''Your task is to formulate ONLY a comprehensive and highly descriptive text prompt suitable for an AI IMAGE generator. '' @
     ''Describe its primary subject(s) with specific attributes, the background elements in detail, the overall composition and framing, '' @
     ''the precise artistic style (e.g., hyperrealistic photograph, detailed oil painting, intricate watercolor, polished 3D render), '' @
     ''the nuances of lighting conditions (e.g., soft morning light with long shadows, dramatic chiaroscuro, vibrant neon reflections), the full color palette and its emotional impact, '' @
     ''and any significant textures, patterns, or emotional tone conveyed. '' @
     ''DO NOT include any conversational text, preamble, or explanation. Output ONLY the image prompt string, packed with descriptive keywords.''"

definition prompt_instruction_for_vision :: "string \<Rightarrow> string" where
  "prompt_instruction_for_vision target_prompt_type =
     (if target_prompt_type = ''video'' then video_instruction else image_instruction)"

text \<open>
  \<open>run_vision_generation\<close>. The check before the remote call sits inside the
  \<open>try\<close> whose \<open>finally\<close> emits \<open>finished\<close>, so its own \<open>finished.emit()\<close> is followed
  by a second one when the \<open>return\<close> leaves the \<open>try\<close>.
\<close>

definition run_vision_generation :: "globals \<Rightarrow> (checkpoint \<Rightarrow> bool) \<Rightarrow> worker \<Rightarrow> event list" where
  "run_vision_generation g ui w =
     (if quit_seen w ui VisionEntry
      then [error_occurred ''Operation cancelled by user.'', finished]
      else case vision_model g of
        None \<Rightarrow>
          [error_occurred (''Vision model ('' @ [CHR 0x27] @ VISION_MODEL_NAME_TO_TRY g
                           @ [CHR 0x27] @ '') is not initialized.''), finished]
      | Some model \<Rightarrow>
          (case pil_image w of
             None \<Rightarrow> [error_occurred ''No image provided to vision worker.'', finished]
           | Some img \<Rightarrow>
               (let target_prompt_type = context_field w;
                    instruction = prompt_instruction_for_vision target_prompt_type
                in if quit_seen w ui VisionPreCall
                   then [error_occurred ''Operation cancelled by user.'', finished, finished]
                   else
                     (case model instruction img of
                        Inl e \<Rightarrow>
                          [vision_generate_content instruction img,
                           error_occurred (''Vision API Error ('' @ target_prompt_type
                                           @ ''): '' @ e),
                           finished]
                      | Inr response_text \<Rightarrow>
                          (let generated_text = sanitize_vision response_text
                           in [vision_generate_content instruction img,
                               result_ready
                                 [if generated_text \<noteq> [] then generated_text
                                  else ''Gemini Vision returned an empty description for the ''
                                       @ target_prompt_type @ '' prompt.''],
                               finished])))))"

text \<open>\<open>GeminiWorker.run\<close>.\<close>

definition run :: "globals \<Rightarrow> (checkpoint \<Rightarrow> bool) \<Rightarrow> worker \<Rightarrow> event list" where
  "run g ui w =
     (if \<not> GEMINI_API_KEY_VALID g
      then [error_occurred ''Gemini API key is not configured or invalid.'', finished]
      else if quit_seen w ui RunEntry then [finished]
      else if operation_type w = ''text'' then run_text_generation g ui w
      else if operation_type w = ''vision'' then run_vision_generation g ui w
      else [error_occurred (''Unknown worker operation type: '' @ operation_type w), finished])"

text \<open>What is read off a job's events.\<close>

definition is_terminal :: "event \<Rightarrow> bool" where
  "is_terminal e = (case e of result_ready rs \<Rightarrow> True | error_occurred m \<Rightarrow> True | _ \<Rightarrow> False)"

definition is_remote_call :: "event \<Rightarrow> bool" where
  "is_remote_call e =
     (case e of text_generate_content p \<Rightarrow> True | vision_generate_content p i \<Rightarrow> True
      | _ \<Rightarrow> False)"

definition signals :: "event list \<Rightarrow> event list" where
  "signals evs = filter (\<lambda>e. \<not> is_remote_call e) evs"

definition remote_calls :: "event list \<Rightarrow> event list" where
  "remote_calls evs = filter is_remote_call evs"

section \<open>Submitting a job\<close>

text \<open>
  The fields of the main window that \<open>_trigger_gemini_operation\<close> reads or writes.
  \<open>isRunning\<close> is what \<open>QThread.isRunning()\<close> answers; \<open>is_new_batch_start\<close> is
  \<open>None\<close> while the attribute does not exist; \<open>generating\<close> is the state that
  \<open>_set_ui_for_generation\<close> puts the buttons in.
\<close>

record qthread =
  isRunning :: bool

record main_window =
  gemini_thread :: "qthread option"
  gemini_worker :: "worker option"
  is_new_batch_start :: "bool option"
  output_text_edit :: string
  generating :: bool
  status_bar :: string

datatype submission = busy | started

text \<open>
  \<open>_trigger_gemini_operation\<close>, on the module state and the window. The assignment to
  the global comes first, before the test of the running thread. A rejected call shows
  the "Busy" box and returns.
\<close>

definition trigger_gemini_operation ::
  "string \<Rightarrow> string \<Rightarrow> int \<Rightarrow> string \<Rightarrow> pil_image option \<Rightarrow> bool \<Rightarrow>
   globals \<times> main_window \<Rightarrow> submission \<times> globals \<times> main_window" where
  "trigger_gemini_operation user_query context_label num_vars op_type img
     clear_previous_output st =
     (let g = (fst st)\<lparr>num_variations_for_worker := num_vars\<rparr>;
          win = snd st
      in if (case gemini_thread win of None \<Rightarrow> False | Some t \<Rightarrow> isRunning t)
         then (busy, g, win)
         else
           let win1 = win\<lparr>gemini_thread := None, gemini_worker := None\<rparr>;
               win2 = (if clear_previous_output
                          \<and> (num_vars = 1 \<or> is_new_batch_start win1 = Some True)
                       then win1\<lparr>output_text_edit := [],
                                 is_new_batch_start :=
                                   map_option (\<lambda>_. False) (is_new_batch_start win1)\<rparr>
                       else win1);
               win3 = win2\<lparr>generating := True,
                           status_bar := ''Starting '' @ context_label @ '' generation (''
                                         @ (if num_vars < 0 then ''-'' else [])
                                         @ str_nat (nat \<bar>num_vars\<bar>) @ '' var)...''\<rparr>
           in (started, g,
               win3\<lparr>gemini_thread := Some \<lparr>isRunning = True\<rparr>,
                     gemini_worker :=
                       Some \<lparr>query = user_query, context_field = context_label,
                             num_variations = num_vars, operation_type = op_type,
                             pil_image = img, quit_requested = False\<rparr>\<rparr>))"

text \<open>\<open>_on_thread_finished_cleanup\<close>, the slot of the thread's \<open>finished\<close> signal.\<close>

definition on_thread_finished_cleanup :: "main_window \<Rightarrow> main_window" where
  "on_thread_finished_cleanup win =
     win\<lparr>gemini_thread := None, gemini_worker := None, generating := False\<rparr>"

section \<open>Rendering the results\<close>

text \<open>
  The test that \<open>_handle_gemini_results\<close> applies to an entry, in both of its branches:
  \<open>"API Error" in text or "Operation cancelled" in text\<close>.
\<close>

definition entry_failed :: "string \<Rightarrow> bool" where
  "entry_failed text = (py_in ''API Error'' text \<or> py_in ''Operation cancelled'' text)"

definition output_part :: "nat \<Rightarrow> string \<Rightarrow> string" where
  "output_part i text =
     (if entry_failed text
      then ''--- Variation '' @ str_nat (i + 1) @ '' FAILED ---\<newline>'' @ text @ ''\<newline>''
      else ''--- Prompt Variation '' @ str_nat (i + 1) @ '' ---\<newline>'' @ text @ ''\<newline>'')"

text \<open>
  What \<open>_handle_gemini_results\<close> leaves on the screen: the output area, the status bar,
  and whether the "Batch Generation Issues" warning was shown. \<open>nvars\<close> is the value of
  \<open>num_variations_for_worker\<close> when the handler runs.
\<close>

record rendering =
  output_shown :: string
  status_shown :: string
  batch_warning :: bool

definition handle_gemini_results :: "int \<Rightarrow> string list \<Rightarrow> rendering" where
  "handle_gemini_results nvars results =
     (if results = []
      then \<lparr>output_shown = ''Worker returned no results.'',
            status_shown = ''Generation finished: No results.'', batch_warning = False\<rparr>
      else if nvars > 1
      then
        let output_parts = map (\<lambda>(i, text). output_part i text) (enumerate 0 results);
            has_errors_in_batch = list_ex entry_failed results
        in \<lparr>output_shown = strip (join ''\<newline>\<newline>'' output_parts),
            status_shown =
              (if has_errors_in_batch then ''Batch complete with issues.''
               else ''Batch of '' @ str_nat (nat nvars) @ '' prompts generated successfully.''),
            batch_warning = has_errors_in_batch\<rparr>
      else
        let result_text = hd results
        in \<lparr>output_shown = result_text,
            status_shown =
              (if entry_failed result_text
               then ''Generation failed or cancelled. Check output.''
               else ''Prompt generation successful.''),
            batch_warning = False\<rparr>)"

section \<open>Auxiliary notions\<close>

text \<open>No whitespace at the front, and none at the back.\<close>

definition no_lead :: "string \<Rightarrow> bool" where
  "no_lead s = (s = [] \<or> \<not> py_isspace (hd s))"

definition no_trail :: "string \<Rightarrow> bool" where
  "no_trail s = (s = [] \<or> \<not> py_isspace (last s))"

text \<open>
  What \<open>_generate_single_prompt_core\<close> returns for variation \<open>i\<close>, and the remote call
  it issues, when its cancellation check passes.
\<close>

definition variation_result :: "globals \<Rightarrow> worker \<Rightarrow> nat \<Rightarrow> string" where
  "variation_result g w i =
     (case text_model g of
        None \<Rightarrow> api_error_text i (text_model_missing g)
      | Some model \<Rightarrow>
          (case model i (gemini_prompt_payload (num_variations_for_worker g) (query w)
                           (context_field w) i) of
             Inl e \<Rightarrow> api_error_text i e
           | Inr response_text \<Rightarrow> sanitize_text response_text))"

definition variation_calls :: "globals \<Rightarrow> worker \<Rightarrow> nat \<Rightarrow> event list" where
  "variation_calls g w i =
     (case text_model g of
        None \<Rightarrow> []
      | Some model \<Rightarrow>
          [text_generate_content
             (gemini_prompt_payload (num_variations_for_worker g) (query w) (context_field w) i)])"

text \<open>
  The job is a VISION job that gets as far as the cancellation check just before the
  remote call and is cancelled there.
\<close>

definition vision_precall_cancelled :: "globals \<Rightarrow> (checkpoint \<Rightarrow> bool) \<Rightarrow> worker \<Rightarrow> bool" where
  "vision_precall_cancelled g ui w =
     (GEMINI_API_KEY_VALID g \<and> \<not> quit_seen w ui RunEntry \<and> operation_type w = ''vision''
      \<and> \<not> quit_seen w ui VisionEntry \<and> vision_model g \<noteq> None \<and> pil_image w \<noteq> None
      \<and> quit_seen w ui VisionPreCall)"

text \<open>
  A configuration and two workers to evaluate on: a text model whose calls for the
  variations 2 and 4 raise, a batch of five, and a vision job with an image, for which
  the submission has set the global to 1.
\<close>

definition example_globals :: globals where
  "example_globals =
     \<lparr>GEMINI_API_KEY_VALID = True,
      text_model = Some (\<lambda>i payload. if i = 2 \<or> i = 4 then Inl ''quota exceeded''
                                    else Inr ''Here's the prompt: a red fox''),
      vision_model = Some (\<lambda>instruction img. Inr ''Prompt: a red fox''),
      TEXT_MODEL_NAME_TO_TRY = ''gemini-pro'',
      VISION_MODEL_NAME_TO_TRY = ''gemini-pro-vision'',
      num_variations_for_worker = 5\<rparr>"

definition example_vision_globals :: globals where
  "example_vision_globals = example_globals\<lparr>num_variations_for_worker := 1\<rparr>"

definition example_worker :: worker where
  "example_worker =
     \<lparr>query = ''Generate from core idea: a fox'', context_field = ''Basic Prompt'',
      num_variations = 5, operation_type = ''text'', pil_image = None,
      quit_requested = False\<rparr>"

definition example_vision_worker :: worker where
  "example_vision_worker =
     \<lparr>query = ''Generate a image prompt from the provided image.'', context_field = ''image'',
      num_variations = 1, operation_type = ''vision'', pil_image = Some (PIL_Image ''fox.png''),
      quit_requested = False\<rparr>"

text \<open>
  The foreground sets the flag of a running TEXT job after variation \<open>k - 1\<close> and
  before the head of iteration \<open>k\<close>. Then the same configuration with no text model
  and a batch of two with its worker, and with no vision model.
\<close>

definition cancel_from_variation :: "nat \<Rightarrow> checkpoint \<Rightarrow> bool" where
  "cancel_from_variation k cp =
     (case cp of LoopHead i \<Rightarrow> k \<le> i | CoreEntry i \<Rightarrow> k \<le> i | _ \<Rightarrow> False)"

definition example_globals_no_text :: globals where
  "example_globals_no_text =
     example_globals\<lparr>text_model := None, num_variations_for_worker := 2\<rparr>"

definition example_pair_worker :: worker where
  "example_pair_worker = example_worker\<lparr>num_variations := 2\<rparr>"

definition example_globals_no_vision :: globals where
  "example_globals_no_vision = example_vision_globals\<lparr>vision_model := None\<rparr>"

text \<open>
  An idle window, a batch of three submitted from it, and a second submission made
  while that batch runs.
\<close>

definition idle_window :: main_window where
  "idle_window =
     \<lparr>gemini_thread = None, gemini_worker = None, is_new_batch_start = Some True,
      output_text_edit = [], generating = False, status_bar = ''Ready.''\<rparr>"

definition after_first_submit :: "submission \<times> globals \<times> main_window" where
  "after_first_submit =
     trigger_gemini_operation ''Generate from core idea: a fox'' ''Basic Prompt'' 3 ''text'' None
       True (example_globals, idle_window)"

definition after_second_submit :: "submission \<times> globals \<times> main_window" where
  "after_second_submit =
     trigger_gemini_operation ''Synthesize a detailed image prompt'' ''Advanced Image Prompt'' 1
       ''text'' None True (snd after_first_submit)"

section \<open>Properties of the string operations\<close>

lemma trimmed_iff: "trimmed s = (no_lead s \<and> no_trail s)"
  by (auto simp: trimmed_def no_lead_def no_trail_def)

lemma lstrip_fix: "no_lead s \<Longrightarrow> lstrip s = s"
  by (cases s) (auto simp: no_lead_def lstrip_def)

lemma rstrip_fix: "no_trail s \<Longrightarrow> rstrip s = s"
proof (cases "s = []")
  case True then show ?thesis by (simp add: rstrip_def)
next
  case False
  assume "no_trail s"
  with False have "\<not> py_isspace (hd (rev s))" by (simp add: no_trail_def hd_rev)
  with False have "dropWhile py_isspace (rev s) = rev s" by (cases "rev s") auto
  then show ?thesis by (simp add: rstrip_def)
qed

lemma no_lead_lstrip: "no_lead (lstrip s)"
  unfolding no_lead_def lstrip_def using hd_dropWhile[of py_isspace s] by blast

lemma no_trail_rstrip: "no_trail (rstrip s)"
  unfolding no_trail_def rstrip_def using hd_dropWhile[of py_isspace "rev s"]
  by (auto simp: last_rev)

lemma no_trail_suffix: "no_trail (xs @ ys) \<Longrightarrow> no_trail ys"
  by (auto simp: no_trail_def)

lemma no_lead_prefix: "no_lead (xs @ ys) \<Longrightarrow> no_lead xs"
  by (cases xs) (auto simp: no_lead_def)

lemma no_trail_drop: "no_trail s \<Longrightarrow> no_trail (drop k s)"
  using no_trail_suffix[of "take k s" "drop k s"] by simp

lemma no_lead_take: "no_lead s \<Longrightarrow> no_lead (take k s)"
  using no_lead_prefix[of "take k s" "drop k s"] by simp

lemma no_trail_lstrip: "no_trail s \<Longrightarrow> no_trail (lstrip s)"
  using no_trail_suffix[of "takeWhile py_isspace s" "dropWhile py_isspace s"]
  by (simp add: lstrip_def)

lemma rstrip_decomp: "rstrip s @ rev (takeWhile py_isspace (rev s)) = s"
proof -
  have "rev (takeWhile py_isspace (rev s) @ dropWhile py_isspace (rev s)) = s" by simp
  then show ?thesis unfolding rstrip_def rev_append .
qed

lemma no_lead_rstrip: "no_lead s \<Longrightarrow> no_lead (rstrip s)"
  using no_lead_prefix[of "rstrip s" "rev (takeWhile py_isspace (rev s))"]
  by (simp add: rstrip_decomp)

lemma trimmed_strip: "trimmed (strip s)"
  by (simp add: trimmed_iff strip_def no_lead_lstrip no_trail_lstrip no_trail_rstrip)

lemma strip_fix: "trimmed s \<Longrightarrow> strip s = s"
  by (simp add: trimmed_iff strip_def lstrip_fix rstrip_fix)

lemma strip_decomp: "\<exists>a b. s = a @ strip s @ b"
proof -
  have "s = rstrip s @ rev (takeWhile py_isspace (rev s))" by (simp add: rstrip_decomp)
  moreover have "rstrip s = takeWhile py_isspace (rstrip s) @ strip s"
    by (simp add: strip_def lstrip_def)
  ultimately have "s = takeWhile py_isspace (rstrip s) @ strip s @ rev (takeWhile py_isspace (rev s))"
    by (metis append.assoc)
  then show ?thesis by blast
qed

lemma trimmed_strip_unwanted_start:
  "trimmed t \<Longrightarrow> trimmed (strip_unwanted_start ps t)"
  by (induction ps) (auto simp: trimmed_iff no_lead_lstrip no_trail_lstrip no_trail_drop)

lemma strip_unwanted_start_first:
  "strip_unwanted_start ps t =
     (case first_start ps t of None \<Rightarrow> t | Some p \<Rightarrow> lstrip (drop (length p) t))"
  by (induction ps) (auto simp: first_start_def)

lemma strip_unwanted_end_first:
  "strip_unwanted_end ps t =
     (case first_end ps t of None \<Rightarrow> t | Some p \<Rightarrow> rstrip (take (length t - length p) t))"
  by (induction ps) (auto simp: first_end_def)

lemma py_in_iff: "py_in n h = (\<exists>xs ys. h = xs @ n @ ys)"
proof (induction h)
  case Nil then show ?case by auto
next
  case (Cons c cs)
  have a: "startswith (c # cs) n = (\<exists>ys. c # cs = n @ ys)"
    unfolding startswith_def
    by (metis append_eq_conv_conj append_take_drop_id)
  show ?case
  proof
    assume "py_in n (c # cs)"
    then consider "startswith (c # cs) n" | "py_in n cs" by auto
    then show "\<exists>xs ys. c # cs = xs @ n @ ys"
    proof cases
      case 1 then obtain ys where "c # cs = n @ ys" using a by blast
      then have "c # cs = [] @ n @ ys" by simp
      then show ?thesis by blast
    next
      case 2 then obtain xs ys where "cs = xs @ n @ ys" using Cons.IH by blast
      then have "c # cs = (c # xs) @ n @ ys" by simp
      then show ?thesis by blast
    qed
  next
    assume "\<exists>xs ys. c # cs = xs @ n @ ys"
    then obtain xs ys where e: "c # cs = xs @ n @ ys" by blast
    show "py_in n (c # cs)"
    proof (cases xs)
      case Nil
      with e have "startswith (c # cs) n" using a by auto
      then show ?thesis by simp
    next
      case (Cons x xs') with e have "cs = xs' @ n @ ys" by simp
      then show ?thesis using Cons.IH by auto
    qed
  qed
qed

lemma startswith_py_in: "startswith s p \<Longrightarrow> py_in p s"
  unfolding py_in_iff startswith_def
  by (metis append_Nil append_take_drop_id)

lemma endswith_py_in: "endswith s p \<Longrightarrow> py_in p s"
  unfolding py_in_iff endswith_def
  by (metis append_Nil2 append_take_drop_id)

lemma py_in_lower_strip: "py_in n (lower (strip s)) \<Longrightarrow> py_in n (lower s)"
proof -
  assume "py_in n (lower (strip s))"
  then obtain xs ys where e: "lower (strip s) = xs @ n @ ys" unfolding py_in_iff by blast
  obtain a b where "s = a @ strip s @ b" using strip_decomp by blast
  then have "lower s = lower a @ lower (strip s) @ lower b"
    unfolding lower_def by (metis map_append)
  with e have "lower s = (lower a @ xs) @ n @ (ys @ lower b)" by simp
  then show ?thesis unfolding py_in_iff by blast
qed

lemma free_of_first_start:
  "free_of ps s \<Longrightarrow> set qs \<subseteq> set ps \<Longrightarrow> first_start qs (strip s) = None"
  unfolding first_start_def free_of_def find_None_iff list_all_iff
  using startswith_py_in py_in_lower_strip by blast

lemma free_of_first_end:
  "free_of ps s \<Longrightarrow> set qs \<subseteq> set ps \<Longrightarrow> first_end qs (strip s) = None"
  unfolding first_end_def free_of_def find_None_iff list_all_iff
  using endswith_py_in py_in_lower_strip by blast

lemma trimmed_sanitize_text: "trimmed (sanitize_text x)"
  by (simp add: sanitize_text_def trimmed_strip)

lemma trimmed_sanitize_vision: "trimmed (sanitize_vision x)"
  by (simp add: sanitize_vision_def trimmed_strip trimmed_strip_unwanted_start)

lemma sanitize_text_free:
  "free_of (unwanted_starts @ unwanted_ends) x \<Longrightarrow> sanitize_text x = strip x"
  by (simp add: sanitize_text_def strip_unwanted_start_first strip_unwanted_end_first
      free_of_first_start free_of_first_end strip_fix trimmed_strip)

lemma sanitize_vision_free:
  "free_of vision_unwanted_starts x \<Longrightarrow> sanitize_vision x = strip x"
  by (simp add: sanitize_vision_def strip_unwanted_start_first free_of_first_start)

section \<open>Evaluating characters\<close>

text \<open>
  The two character tests on the bits of a character, for evaluation: bit 5 is the
  difference between a capital letter and its small letter.
\<close>

lemma py_lower_char_code [code]:
  "py_lower_char (Char b0 b1 b2 b3 b4 b5 b6 b7) =
     (if b6 \<and> \<not> b5 \<and>
         ((\<not> b7 \<and> (b0 \<or> b1 \<or> b2 \<or> b3 \<or> b4) \<and> \<not> (b4 \<and> b3 \<and> (b2 \<or> (b1 \<and> b0))))
          \<or> (b7 \<and> \<not> (b4 \<and> b3 \<and> b2 \<and> b1 \<and> b0) \<and> \<not> (b4 \<and> \<not> b3 \<and> b2 \<and> b1 \<and> b0)))
      then Char b0 b1 b2 b3 b4 True b6 b7 else Char b0 b1 b2 b3 b4 b5 b6 b7)"
  by (cases b0; cases b1; cases b2; cases b3; cases b4; cases b5; cases b6; cases b7)
     (simp_all add: py_lower_char_def char_of_eq_iff)

lemma py_isspace_code [code]:
  "py_isspace (Char b0 b1 b2 b3 b4 b5 b6 b7) =
     (if b7 then \<not> b6 \<and> \<not> b4 \<and> \<not> b3 \<and> \<not> b1 \<and> (b5 \<and> \<not> b2 \<and> \<not> b0 \<or> \<not> b5 \<and> b2 \<and> b0)
      else \<not> b6 \<and>
        (if b5 then \<not> b4 \<and> \<not> b3 \<and> \<not> b2 \<and> \<not> b1 \<and> \<not> b0
         else if b4 then b3 \<and> b2
         else b3 \<and> (\<not> b2 \<and> (b1 \<or> b0) \<or> b2 \<and> \<not> b1)))"
  by (cases b0; cases b1; cases b2; cases b3; cases b4; cases b5; cases b6; cases b7)
     (simp_all add: py_isspace_def)

section \<open>The sanitizer (C6, C7)\<close>

text \<open>
  C6. The sanitizer looks for the first phrase of its ordered prefix list that the
  trimmed text starts with, compared case-insensitively; when there is one it removes
  exactly that phrase and the whitespace after it, and looks at no other prefix. Only a
  TEXT job then does the same with the suffix list; a VISION job keeps its ending. The
  output never has whitespace at either end, and a text in which no known phrase occurs
  comes back as the trimmed input. The functions are total: nothing is raised.
\<close>

theorem sanitizer_contract:
  "sanitize_vision raw =
     (case first_start vision_unwanted_starts (strip raw) of
        None \<Rightarrow> strip raw
      | Some p \<Rightarrow> lstrip (drop (length p) (strip raw)))
   \<and> sanitize_text raw =
       strip (let t = (case first_start unwanted_starts (strip raw) of
                         None \<Rightarrow> strip raw
                       | Some p \<Rightarrow> lstrip (drop (length p) (strip raw)))
              in case first_end unwanted_ends t of
                   None \<Rightarrow> t
                 | Some q \<Rightarrow> rstrip (take (length t - length q) t))
   \<and> trimmed (sanitize_text raw) \<and> trimmed (sanitize_vision raw)
   \<and> (free_of (unwanted_starts @ unwanted_ends) raw \<longrightarrow> sanitize_text raw = strip raw)
   \<and> (free_of vision_unwanted_starts raw \<longrightarrow> sanitize_vision raw = strip raw)"
proof -
  have v: "sanitize_vision raw =
     (case first_start vision_unwanted_starts (strip raw) of
        None \<Rightarrow> strip raw
      | Some p \<Rightarrow> lstrip (drop (length p) (strip raw)))"
    by (simp add: sanitize_vision_def strip_unwanted_start_first)
  have t: "sanitize_text raw =
       strip (let t = (case first_start unwanted_starts (strip raw) of
                         None \<Rightarrow> strip raw
                       | Some p \<Rightarrow> lstrip (drop (length p) (strip raw)))
              in case first_end unwanted_ends t of
                   None \<Rightarrow> t
                 | Some q \<Rightarrow> rstrip (take (length t - length q) t))"
    unfolding sanitize_text_def Let_def
    by (simp only: strip_unwanted_start_first strip_unwanted_end_first)
  show ?thesis
    using v t trimmed_sanitize_text trimmed_sanitize_vision sanitize_text_free
      sanitize_vision_free by blast
qed

text \<open>
  The contract at concrete texts: one without boilerplate, one where the second prefix
  stays after the first is removed and the suffix goes (TEXT), and one whose suffix
  stays (VISION).
\<close>

theorem sanitizer_contract_witness:
  "free_of (unwanted_starts @ unwanted_ends) ''  a red fox  ''
   \<and> free_of vision_unwanted_starts ''  a red fox  ''
   \<and> sanitize_text ''  a red fox  '' = ''a red fox''
   \<and> sanitize_vision ''  a red fox  '' = ''a red fox''
   \<and> sanitize_text ''PROMPT:  Here's the prompt: a red fox. Hope this helps! '' =
       ''Here's the prompt: a red fox.''
   \<and> sanitize_vision ''prompt: a red fox. Hope this helps! '' = ''a red fox. Hope this helps!''"
proof -
  have f1: "free_of (unwanted_starts @ unwanted_ends) ''  a red fox  ''" by code_simp
  have f2: "free_of vision_unwanted_starts ''  a red fox  ''" by code_simp
  have s: "strip ''  a red fox  '' = ''a red fox''" by code_simp
  have "sanitize_text ''  a red fox  '' = strip ''  a red fox  ''"
    using sanitizer_contract [of "''  a red fox  ''"] f1 by blast
  then have a: "sanitize_text ''  a red fox  '' = ''a red fox''"
    using s by simp
  have "sanitize_vision ''  a red fox  '' = strip ''  a red fox  ''"
    using sanitizer_contract [of "''  a red fox  ''"] f2 by blast
  then have b: "sanitize_vision ''  a red fox  '' = ''a red fox''"
    using s by simp
  have c: "sanitize_text ''PROMPT:  Here's the prompt: a red fox. Hope this helps! '' =
       ''Here's the prompt: a red fox.''" by code_simp
  have d: "sanitize_vision ''prompt: a red fox. Hope this helps! '' = ''a red fox. Hope this helps!''"
    by code_simp
  show ?thesis using f1 f2 a b c d by blast
qed

text \<open>
  C7 as stated fails: removing one prefix can uncover another, which only a second pass
  removes.
\<close>

theorem sanitize_twice_counterexample:
  "sanitize_text ''Prompt: Prompt: a red fox'' = ''Prompt: a red fox''
   \<and> sanitize_text (sanitize_text ''Prompt: Prompt: a red fox'') = ''a red fox''"
  by code_simp

text \<open>
  C7, amended. Sanitizing twice gives the same as sanitizing once whenever the text
  sanitized once no longer starts with a known prefix phrase nor, for a TEXT job, ends
  with a known suffix phrase.
\<close>

theorem sanitize_twice_settled:
  "(first_start unwanted_starts (sanitize_text x) = None
      \<and> first_end unwanted_ends (sanitize_text x) = None
      \<longrightarrow> sanitize_text (sanitize_text x) = sanitize_text x)
   \<and> (first_start vision_unwanted_starts (sanitize_vision x) = None
      \<longrightarrow> sanitize_vision (sanitize_vision x) = sanitize_vision x)"
proof -
  have st: "strip (sanitize_text x) = sanitize_text x"
    by (simp add: strip_fix trimmed_sanitize_text)
  have sv: "strip (sanitize_vision x) = sanitize_vision x"
    by (simp add: strip_fix trimmed_sanitize_vision)
  have a: "first_start unwanted_starts (sanitize_text x) = None
      \<Longrightarrow> first_end unwanted_ends (sanitize_text x) = None
      \<Longrightarrow> sanitize_text (sanitize_text x) = sanitize_text x"
    using st
    by (simp add: sanitize_text_def [of "sanitize_text x"] strip_unwanted_start_first
        strip_unwanted_end_first)
  have b: "first_start vision_unwanted_starts (sanitize_vision x) = None
      \<Longrightarrow> sanitize_vision (sanitize_vision x) = sanitize_vision x"
    using sv
    by (simp add: sanitize_vision_def [of "sanitize_vision x"] strip_unwanted_start_first)
  show ?thesis using a b by blast
qed

text \<open>The amended statement at a text with one prefix phrase.\<close>

theorem sanitize_twice_settled_witness:
  "first_start unwanted_starts (sanitize_text ''Here's the prompt: a red fox'') = None
   \<and> first_end unwanted_ends (sanitize_text ''Here's the prompt: a red fox'') = None
   \<and> first_start vision_unwanted_starts (sanitize_vision ''Prompt: a red fox'') = None
   \<and> sanitize_text (sanitize_text ''Here's the prompt: a red fox'') =
       sanitize_text ''Here's the prompt: a red fox''
   \<and> sanitize_vision (sanitize_vision ''Prompt: a red fox'') = sanitize_vision ''Prompt: a red fox''"
proof -
  have h1: "first_start unwanted_starts (sanitize_text ''Here's the prompt: a red fox'') = None"
    by code_simp
  have h2: "first_end unwanted_ends (sanitize_text ''Here's the prompt: a red fox'') = None"
    by code_simp
  have h3: "first_start vision_unwanted_starts (sanitize_vision ''Prompt: a red fox'') = None"
    by code_simp
  show ?thesis
    using h1 h2 h3 sanitize_twice_settled [of "''Here's the prompt: a red fox''"]
      sanitize_twice_settled [of "''Prompt: a red fox''"] by blast
qed

section \<open>The text path\<close>

lemma core_not_cancelled:
  "\<not> quit_seen w ui (CoreEntry i) \<Longrightarrow>
   generate_single_prompt_core g ui w (query w) (context_field w) i =
     (variation_calls g w i, variation_result g w i)"
  by (simp add: generate_single_prompt_core_def variation_calls_def variation_result_def
      Let_def split: option.splits sum.splits)

lemma core_calls_remote:
  "list_all is_remote_call (fst (generate_single_prompt_core g ui w q c i))"
  by (simp add: generate_single_prompt_core_def Let_def is_remote_call_def
      split: option.splits sum.splits)

lemma text_loop_Cons:
  "text_loop g ui w (i # rest) acc =
     (if quit_seen w ui (LoopHead i)
      then ([], acc @ [''Batch operation cancelled by user.''])
      else
        (fst (generate_single_prompt_core g ui w (query w) (context_field w) i)
         @ fst (text_loop g ui w rest
                  (acc @ [snd (generate_single_prompt_core g ui w (query w) (context_field w) i)])),
         snd (text_loop g ui w rest
                (acc @ [snd (generate_single_prompt_core g ui w (query w) (context_field w) i)]))))"
  by (simp split: prod.splits)

lemma loop_calls_remote:
  "list_all is_remote_call (fst (text_loop g ui w idxs acc))"
  by (induction idxs arbitrary: acc)
     (simp_all add: text_loop_Cons core_calls_remote del: text_loop.simps(2))

lemma signals_of_calls: "list_all is_remote_call calls \<Longrightarrow> signals (calls @ evs) = signals evs"
  by (induction calls) (auto simp: signals_def)

lemma remote_calls_of_calls:
  "list_all is_remote_call calls \<Longrightarrow> remote_calls (calls @ [result_ready rs, finished]) = calls"
  by (induction calls) (auto simp: remote_calls_def is_remote_call_def)

lemma run_text_generation_eq:
  "run_text_generation g ui w =
     fst (text_loop g ui w [0 ..< nat (num_variations_for_worker g)] [])
     @ [result_ready (snd (text_loop g ui w [0 ..< nat (num_variations_for_worker g)] [])),
        finished]"
  by (simp add: run_text_generation_def split: prod.splits)

lemma signals_run_text_generation:
  "signals (run_text_generation g ui w) =
     [result_ready (snd (text_loop g ui w [0 ..< nat (num_variations_for_worker g)] [])),
      finished]"
  by (simp add: run_text_generation_eq signals_of_calls loop_calls_remote)
     (simp add: signals_def is_remote_call_def)

lemma remote_calls_run_text_generation:
  "remote_calls (run_text_generation g ui w) =
     fst (text_loop g ui w [0 ..< nat (num_variations_for_worker g)] [])"
  by (simp add: run_text_generation_eq remote_calls_of_calls loop_calls_remote)

lemma loop_not_cancelled:
  "list_all (\<lambda>i. \<not> quit_seen w ui (LoopHead i) \<and> \<not> quit_seen w ui (CoreEntry i)) idxs \<Longrightarrow>
   text_loop g ui w idxs acc =
     (concat (map (variation_calls g w) idxs), acc @ map (variation_result g w) idxs)"
  by (induction idxs arbitrary: acc)
     (simp_all add: text_loop_Cons core_not_cancelled del: text_loop.simps(2))

lemma loop_length:
  "list_all (\<lambda>i. \<not> quit_seen w ui (LoopHead i)) idxs \<Longrightarrow>
   length (snd (text_loop g ui w idxs acc)) = length acc + length idxs"
  by (induction idxs arbitrary: acc) (simp_all add: text_loop_Cons del: text_loop.simps(2))

lemma loop_cancelled_at:
  "list_all (\<lambda>i. \<not> quit_seen w ui (LoopHead i)) pre \<Longrightarrow> quit_seen w ui (LoopHead k) \<Longrightarrow>
   text_loop g ui w (pre @ k # post) acc =
     (fst (text_loop g ui w pre acc),
      snd (text_loop g ui w pre acc) @ [''Batch operation cancelled by user.''])"
  by (induction pre arbitrary: acc) (simp_all add: text_loop_Cons del: text_loop.simps(2))

lemma loop_no_model:
  "text_model g = None \<Longrightarrow> fst (text_loop g ui w idxs acc) = []"
  by (induction idxs arbitrary: acc)
     (simp_all add: text_loop_Cons generate_single_prompt_core_def Let_def
        del: text_loop.simps(2))

section \<open>The vision path and \<open>run\<close>\<close>

lemma signals_run_vision_generation:
  "signals (run_vision_generation g ui w) =
     (if quit_seen w ui VisionEntry
      then [error_occurred ''Operation cancelled by user.'', finished]
      else case vision_model g of
        None \<Rightarrow>
          [error_occurred (''Vision model ('' @ [CHR 0x27] @ VISION_MODEL_NAME_TO_TRY g
                           @ [CHR 0x27] @ '') is not initialized.''), finished]
      | Some model \<Rightarrow>
          (case pil_image w of
             None \<Rightarrow> [error_occurred ''No image provided to vision worker.'', finished]
           | Some img \<Rightarrow>
               if quit_seen w ui VisionPreCall
               then [error_occurred ''Operation cancelled by user.'', finished, finished]
               else
                 (case model (prompt_instruction_for_vision (context_field w)) img of
                    Inl e \<Rightarrow>
                      [error_occurred (''Vision API Error ('' @ context_field w @ ''): '' @ e),
                       finished]
                  | Inr response_text \<Rightarrow>
                      [result_ready
                         [if sanitize_vision response_text \<noteq> []
                          then sanitize_vision response_text
                          else ''Gemini Vision returned an empty description for the ''
                               @ context_field w @ '' prompt.''],
                       finished])))"
  by (simp add: run_vision_generation_def signals_def is_remote_call_def Let_def
      split: option.splits sum.splits)

lemma vision_terminal:
  "\<not> (\<not> quit_seen w ui VisionEntry \<and> vision_model g \<noteq> None \<and> pil_image w \<noteq> None
      \<and> quit_seen w ui VisionPreCall) \<Longrightarrow>
   \<exists>t. is_terminal t \<and> signals (run_vision_generation g ui w) = [t, finished]"
  unfolding signals_run_vision_generation
  by (auto simp: is_terminal_def split: option.splits sum.splits)

text \<open>
  On the cancellation check before the vision call, \<open>finished\<close> is emitted twice: once
  by the branch itself and once by the \<open>finally\<close> clause that the \<open>return\<close> passes.
\<close>

lemma run_vision_precall_cancel:
  "vision_precall_cancelled g ui w \<Longrightarrow>
   signals (run g ui w) = [error_occurred ''Operation cancelled by user.'', finished, finished]"
  unfolding vision_precall_cancelled_def run_def
  by (auto simp: signals_run_vision_generation split: option.splits)

lemma run_text:
  "GEMINI_API_KEY_VALID g \<Longrightarrow> \<not> quit_seen w ui RunEntry \<Longrightarrow> operation_type w = ''text'' \<Longrightarrow>
   run g ui w = run_text_generation g ui w"
  by (simp add: run_def)

lemma run_vision:
  "GEMINI_API_KEY_VALID g \<Longrightarrow> \<not> quit_seen w ui RunEntry \<Longrightarrow> operation_type w = ''vision'' \<Longrightarrow>
   run g ui w = run_vision_generation g ui w"
  by (simp add: run_def)

lemma list_all_upt: "list_all P [0 ..< n] = (\<forall>i<n. P i)"
  by (auto simp: list_all_iff)

section \<open>Terminal signals (C1)\<close>

text \<open>
  C1, amended. Leaving aside a VISION job cancelled at the check just before its remote
  call: when the key is valid and cancellation is already requested as \<open>run\<close> starts,
  the job emits \<open>finished\<close> once and no terminal signal; on every other path it emits
  exactly one terminal signal (\<open>result_ready\<close> or \<open>error_occurred\<close>) and then
  \<open>finished\<close>, once.
\<close>

theorem run_terminal_then_finished:
  "\<not> vision_precall_cancelled g ui w \<Longrightarrow>
   (if GEMINI_API_KEY_VALID g \<and> quit_seen w ui RunEntry
    then signals (run g ui w) = [finished]
    else \<exists>t. is_terminal t \<and> signals (run g ui w) = [t, finished])"
proof -
  assume a: "\<not> vision_precall_cancelled g ui w"
  show ?thesis
  proof (cases "GEMINI_API_KEY_VALID g")
    case False
    then show ?thesis by (simp add: run_def signals_def is_remote_call_def is_terminal_def)
  next
    case key: True
    show ?thesis
    proof (cases "quit_seen w ui RunEntry")
      case True
      with key show ?thesis by (simp add: run_def signals_def is_remote_call_def)
    next
      case nq: False
      consider (t) "operation_type w = ''text''" | (v) "operation_type w = ''vision''"
        | (o) "operation_type w \<noteq> ''text''" "operation_type w \<noteq> ''vision''" by blast
      then show ?thesis
      proof cases
        case t
        with key nq show ?thesis
          by (simp add: run_def signals_run_text_generation is_terminal_def)
      next
        case v
        with key nq a have
          "\<not> (\<not> quit_seen w ui VisionEntry \<and> vision_model g \<noteq> None \<and> pil_image w \<noteq> None
              \<and> quit_seen w ui VisionPreCall)"
          by (simp add: vision_precall_cancelled_def)
        from vision_terminal [OF this] key nq v show ?thesis
          by (simp add: run_def)
      next
        case o
        with key nq show ?thesis
          by (simp add: run_def signals_def is_remote_call_def is_terminal_def)
      qed
    qed
  qed
qed

text \<open>
  C1 as stated fails: with cancellation requested before the job body starts, \<open>run\<close>
  emits \<open>finished\<close> alone.
\<close>

theorem run_cancelled_at_entry_counterexample:
  "signals (run example_globals (\<lambda>cp. True) example_worker) = [finished]"
  by (simp add: run_def example_globals_def example_worker_def quit_seen_def signals_def
      is_remote_call_def)

text \<open>
  The amended statement at a vision job that runs to its result, and at the same job
  cancelled before it starts.
\<close>

theorem run_terminal_then_finished_witness:
  "\<not> vision_precall_cancelled example_vision_globals (\<lambda>cp. False) example_vision_worker
   \<and> signals (run example_vision_globals (\<lambda>cp. False) example_vision_worker) =
       [result_ready [''a red fox''], finished]
   \<and> \<not> vision_precall_cancelled example_vision_globals (\<lambda>cp. True) example_vision_worker
   \<and> signals (run example_vision_globals (\<lambda>cp. True) example_vision_worker) = [finished]"
proof -
  have h1: "\<not> vision_precall_cancelled example_vision_globals (\<lambda>cp. False) example_vision_worker"
    by (simp add: vision_precall_cancelled_def quit_seen_def example_vision_worker_def)
  have h2: "\<not> vision_precall_cancelled example_vision_globals (\<lambda>cp. True) example_vision_worker"
    by (simp add: vision_precall_cancelled_def quit_seen_def)
  have k: "GEMINI_API_KEY_VALID example_vision_globals"
    by (simp add: example_vision_globals_def example_globals_def)
  have s: "sanitize_vision ''Prompt: a red fox'' = ''a red fox''" by code_simp
  have "\<exists>t. is_terminal t
          \<and> signals (run example_vision_globals (\<lambda>cp. False) example_vision_worker) = [t, finished]"
    using run_terminal_then_finished [OF h1]
    by (simp add: quit_seen_def example_vision_worker_def)
  moreover have "signals (run example_vision_globals (\<lambda>cp. False) example_vision_worker) =
       [result_ready [''a red fox''], finished]"
    by (simp add: run_def signals_run_vision_generation quit_seen_def
        example_vision_globals_def example_globals_def example_vision_worker_def s)
  moreover have "signals (run example_vision_globals (\<lambda>cp. True) example_vision_worker) = [finished]"
    using run_terminal_then_finished [OF h2] k by (simp add: quit_seen_def)
  ultimately show ?thesis using h1 h2 by blast
qed

section \<open>Payloads and partial failure (C9, C5)\<close>

text \<open>
  C9. There are four instruction variants, all different. The payload for variation 0
  ends with the user's query, with no extra suffix. When more than one variation is
  requested, the payload for variation \<open>i > 0\<close> is that of variation 0 followed by
  exactly one instruction, the one whose position in the rotation is \<open>i mod 4\<close>.
  (\<open>nvars\<close> is the global \<open>num_variations_for_worker\<close>, which a submission sets to its
  variation count.)
\<close>

theorem variation_payload_rotation:
  "length variation_prompts = 4 \<and> distinct variation_prompts
   \<and> gemini_prompt_payload nvars user_query c 0 =
       (system_instruction
        @ (if c \<noteq> []
           then ''\<newline>Context for this specific request: The user is trying to generate a ''
                @ [CHR 0x27] @ c @ [CHR 0x27]
                @ ''. Emphasize detail and richness for this type of prompt.''
           else []))
       @ ''\<newline>\<newline>User's Request Details (aim for high detail):\<newline>'' @ user_query
   \<and> (1 < nvars \<and> 0 < i \<longrightarrow>
        gemini_prompt_payload nvars user_query c i =
          gemini_prompt_payload nvars user_query c 0
          @ ''\<newline>\<newline>Instruction for this specific variation (out of several): ''
          @ variation_prompts ! (i mod 4)
          @ '' Ensure maximum detail and output only the prompt.''
        \<and> variation_prompts ! (i mod 4) \<in> set variation_prompts)"
proof -
  have len: "length variation_prompts = 4"
    by (simp add: variation_prompts_def)
  have dist: "distinct variation_prompts"
    by (simp add: variation_prompts_def)
  have no_suffix: "variation_modifier nvars 0 = []"
    by (simp add: variation_modifier_def)
  have first: "gemini_prompt_payload nvars user_query c 0 =
       (system_instruction
        @ (if c \<noteq> []
           then ''\<newline>Context for this specific request: The user is trying to generate a ''
                @ [CHR 0x27] @ c @ [CHR 0x27]
                @ ''. Emphasize detail and richness for this type of prompt.''
           else []))
       @ ''\<newline>\<newline>User's Request Details (aim for high detail):\<newline>'' @ user_query"
    unfolding gemini_prompt_payload_def no_suffix by simp
  have split: "gemini_prompt_payload nvars user_query c i =
      gemini_prompt_payload nvars user_query c 0 @ variation_modifier nvars i"
    unfolding gemini_prompt_payload_def no_suffix by simp
  have later: "variation_modifier nvars i =
          ''\<newline>\<newline>Instruction for this specific variation (out of several): ''
          @ variation_prompts ! (i mod 4)
          @ '' Ensure maximum detail and output only the prompt.''"
    if "1 < nvars" and "0 < i"
    using that by (simp add: variation_modifier_def len)
  have "i mod 4 < length variation_prompts"
    unfolding len by simp
  then have mem: "variation_prompts ! (i mod 4) \<in> set variation_prompts"
    by (rule nth_mem)
  show ?thesis
    using len dist first split later mem by simp
qed

text \<open>Variation 5 of 3 gets the instruction at position 1.\<close>

theorem variation_payload_rotation_witness:
  "(1::int) < 3 \<and> (0::nat) < 5
   \<and> gemini_prompt_payload 3 ''a fox'' ''Basic Prompt'' 5 =
       gemini_prompt_payload 3 ''a fox'' ''Basic Prompt'' 0
       @ ''\<newline>\<newline>Instruction for this specific variation (out of several): ''
       @ ''Offer a slightly different creative and highly descriptive take on the same core idea, delivering only the prompt.''
       @ '' Ensure maximum detail and output only the prompt.''"
proof -
  have v: "variation_prompts ! (5 mod 4) =
    ''Offer a slightly different creative and highly descriptive take on the same core idea, delivering only the prompt.''"
    by (simp add: variation_prompts_def)
  show ?thesis
    using variation_payload_rotation [of 3 "''a fox''" "''Basic Prompt''" 5] v by simp
qed

text \<open>
  C5. A TEXT job that passes the entry checks always ends with \<open>result_ready\<close> and
  \<open>finished\<close>, never \<open>error_occurred\<close>. When it is not cancelled, it issues the remote
  call of every variation, in order, and entry \<open>i\<close> of the result list is the
  "API Error" string of variation \<open>i\<close> when that call raised and the sanitized response
  otherwise: a failure touches its own entry only.
\<close>

theorem text_partial_failure_isolation:
  assumes "GEMINI_API_KEY_VALID g" and "operation_type w = ''text''"
    and "text_model g = Some model" and "\<not> quit_seen w ui RunEntry"
  shows "(\<exists>rs. signals (run g ui w) = [result_ready rs, finished])
    \<and> ((\<forall>cp. \<not> quit_seen w ui cp) \<longrightarrow>
        run g ui w =
          map (\<lambda>i. text_generate_content
                     (gemini_prompt_payload (num_variations_for_worker g) (query w)
                        (context_field w) i))
            [0 ..< nat (num_variations_for_worker g)]
          @ [result_ready
               (map (\<lambda>i. case model i (gemini_prompt_payload (num_variations_for_worker g)
                                         (query w) (context_field w) i) of
                           Inl e \<Rightarrow> api_error_text i e
                         | Inr response_text \<Rightarrow> sanitize_text response_text)
                  [0 ..< nat (num_variations_for_worker g)]),
              finished])"
proof -
  have r: "run g ui w = run_text_generation g ui w"
    using assms by (simp add: run_text)
  have a: "\<exists>rs. signals (run g ui w) = [result_ready rs, finished]"
    by (simp add: r signals_run_text_generation)
  have b: "run g ui w =
          map (\<lambda>i. text_generate_content
                     (gemini_prompt_payload (num_variations_for_worker g) (query w)
                        (context_field w) i))
            [0 ..< nat (num_variations_for_worker g)]
          @ [result_ready
               (map (\<lambda>i. case model i (gemini_prompt_payload (num_variations_for_worker g)
                                         (query w) (context_field w) i) of
                           Inl e \<Rightarrow> api_error_text i e
                         | Inr response_text \<Rightarrow> sanitize_text response_text)
                  [0 ..< nat (num_variations_for_worker g)]),
              finished]" if nc: "\<forall>cp. \<not> quit_seen w ui cp"
  proof -
    have "list_all (\<lambda>i. \<not> quit_seen w ui (LoopHead i) \<and> \<not> quit_seen w ui (CoreEntry i))
            [0 ..< nat (num_variations_for_worker g)]"
      using nc by (simp add: list_all_iff)
    from loop_not_cancelled [OF this, of g "[]"]
    have l: "text_loop g ui w [0 ..< nat (num_variations_for_worker g)] [] =
       (concat (map (variation_calls g w) [0 ..< nat (num_variations_for_worker g)]),
        map (variation_result g w) [0 ..< nat (num_variations_for_worker g)])"
      by simp
    have vc: "variation_calls g w =
       (\<lambda>i. [text_generate_content
                 (gemini_prompt_payload (num_variations_for_worker g) (query w)
                    (context_field w) i)])"
      using assms(3) by (simp add: variation_calls_def fun_eq_iff)
    have vr: "variation_result g w =
       (\<lambda>i. case model i (gemini_prompt_payload (num_variations_for_worker g)
                                (query w) (context_field w) i) of
               Inl e \<Rightarrow> api_error_text i e
             | Inr response_text \<Rightarrow> sanitize_text response_text)"
      using assms(3) by (simp add: variation_result_def fun_eq_iff)
    show ?thesis
      unfolding r run_text_generation_eq l vc vr by (simp add: concat_map_singleton)
  qed
  show ?thesis using a b by blast
qed

text \<open>Five variations, of which the calls for variations 2 and 4 raise.\<close>

theorem text_partial_failure_isolation_witness:
  "GEMINI_API_KEY_VALID example_globals \<and> operation_type example_worker = ''text''
   \<and> (\<forall>cp. \<not> quit_seen example_worker (\<lambda>cp. False) cp)
   \<and> signals (run example_globals (\<lambda>cp. False) example_worker) =
       [result_ready
          [''a red fox'', ''a red fox'', ''API Error (Text Gen - Variation 3): quota exceeded'',
           ''a red fox'', ''API Error (Text Gen - Variation 5): quota exceeded''],
        finished]
   \<and> length (remote_calls (run example_globals (\<lambda>cp. False) example_worker)) = 5"
proof -
  let ?m = "\<lambda>(i::nat) (payload::string). if i = 2 \<or> i = 4 then (Inl ''quota exceeded'' :: string + string)
                                    else Inr ''Here's the prompt: a red fox''"
  have k: "GEMINI_API_KEY_VALID example_globals" by (simp add: example_globals_def)
  have t: "operation_type example_worker = ''text''" by (simp add: example_worker_def)
  have m: "text_model example_globals = Some ?m" by (simp add: example_globals_def)
  have q: "\<forall>cp. \<not> quit_seen example_worker (\<lambda>cp. False) cp"
    by (simp add: quit_seen_def example_worker_def)
  then have q0: "\<not> quit_seen example_worker (\<lambda>cp. False) RunEntry" by blast
  have n: "[0 ..< nat (num_variations_for_worker example_globals)] = [0, 1, 2, 3, 4]"
    by (simp add: example_globals_def upt_rec)
  have s: "sanitize_text ''Here's the prompt: a red fox'' = ''a red fox''" by code_simp
  have e3: "api_error_text 2 ''quota exceeded'' =
              ''API Error (Text Gen - Variation 3): quota exceeded''" by code_simp
  have e5: "api_error_text 4 ''quota exceeded'' =
              ''API Error (Text Gen - Variation 5): quota exceeded''" by code_simp
  from text_partial_failure_isolation [OF k t m q0] q
  have r: "run example_globals (\<lambda>cp. False) example_worker =
          map (\<lambda>i. text_generate_content
                     (gemini_prompt_payload (num_variations_for_worker example_globals)
                        (query example_worker) (context_field example_worker) i))
            [0, 1, 2, 3, 4]
          @ [result_ready
               (map (\<lambda>i. case ?m i (gemini_prompt_payload
                                         (num_variations_for_worker example_globals)
                                         (query example_worker) (context_field example_worker) i) of
                           Inl e \<Rightarrow> api_error_text i e
                         | Inr response_text \<Rightarrow> sanitize_text response_text)
                  [0, 1, 2, 3, 4]),
              finished]"
    unfolding n by blast
  have "signals (run example_globals (\<lambda>cp. False) example_worker) =
       [result_ready
          [''a red fox'', ''a red fox'', ''API Error (Text Gen - Variation 3): quota exceeded'',
           ''a red fox'', ''API Error (Text Gen - Variation 5): quota exceeded''],
        finished]"
    unfolding r by (simp add: signals_def is_remote_call_def s e3 e5)
  moreover have "length (remote_calls (run example_globals (\<lambda>cp. False) example_worker)) = 5"
    unfolding r by (simp add: remote_calls_def is_remote_call_def)
  ultimately show ?thesis using k t q by blast
qed

section \<open>The number of results (C2)\<close>

lemma upt_split: "k < n \<Longrightarrow> [0 ..< n] = [0 ..< k] @ k # [Suc k ..< n]"
proof -
  assume kn: "k < n"
  then have "[0 ..< n] = [0 ..< k + (n - k)]" by simp
  also have "\<dots> = [0 ..< k] @ [k ..< k + (n - k)]" by (rule upt_add_eq_append) simp
  also have "[k ..< k + (n - k)] = k # [Suc k ..< n]" using kn by (simp add: upt_conv_Cons)
  finally show ?thesis .
qed

text \<open>
  C2, amended. A TEXT job that passes the entry checks emits one result list. When no
  cancellation is seen at the head of any iteration, the list has exactly \<open>N\<close> entries,
  however many variations failed. When cancellation is first seen at the head of
  iteration \<open>k\<close>, the loop appends one cancelled entry and stops: the list has
  \<open>k + 1\<close> entries, the last one the batch-cancelled sentinel.
\<close>

theorem text_result_count:
  assumes "GEMINI_API_KEY_VALID g" and "operation_type w = ''text''"
    and "\<not> quit_seen w ui RunEntry"
  shows "\<exists>rs. signals (run g ui w) = [result_ready rs, finished]
    \<and> ((\<forall>i < nat (num_variations_for_worker g). \<not> quit_seen w ui (LoopHead i))
         \<longrightarrow> length rs = nat (num_variations_for_worker g))
    \<and> (\<forall>k < nat (num_variations_for_worker g).
          quit_seen w ui (LoopHead k) \<and> (\<forall>i < k. \<not> quit_seen w ui (LoopHead i))
          \<longrightarrow> length rs = k + 1 \<and> rs ! k = ''Batch operation cancelled by user.'')"
proof -
  let ?n = "nat (num_variations_for_worker g)"
  let ?rs = "snd (text_loop g ui w [0 ..< ?n] [])"
  have s: "signals (run g ui w) = [result_ready ?rs, finished]"
    using assms by (simp add: run_text signals_run_text_generation)
  have a: "length ?rs = ?n" if "\<forall>i < ?n. \<not> quit_seen w ui (LoopHead i)"
  proof -
    have "list_all (\<lambda>i. \<not> quit_seen w ui (LoopHead i)) [0 ..< ?n]"
      using that by (simp add: list_all_upt)
    from loop_length [OF this, of g "[]"] show ?thesis by simp
  qed
  have b: "length ?rs = k + 1 \<and> ?rs ! k = ''Batch operation cancelled by user.''"
    if "k < ?n" and "quit_seen w ui (LoopHead k)" and "\<forall>i < k. \<not> quit_seen w ui (LoopHead i)"
    for k
  proof -
    have pre: "list_all (\<lambda>i. \<not> quit_seen w ui (LoopHead i)) [0 ..< k]"
      using that(3) by (simp add: list_all_upt)
    have "?rs = snd (text_loop g ui w [0 ..< k] []) @ [''Batch operation cancelled by user.'']"
      using loop_cancelled_at [OF pre that(2), of g "[Suc k ..< ?n]" "[]"] upt_split [OF that(1)]
      by simp
    moreover have "length (snd (text_loop g ui w [0 ..< k] [])) = k"
      using loop_length [OF pre, of g "[]"] by simp
    ultimately show ?thesis by (simp add: nth_append)
  qed
  show ?thesis using s a b by blast
qed

text \<open>
  C2 as stated fails: in a batch of five, cancellation seen at the head of the first
  iteration gives a list of one entry, not five.
\<close>

theorem text_result_count_counterexample:
  "signals (run example_globals (\<lambda>cp. cp \<noteq> RunEntry) example_worker) =
     [result_ready [''Batch operation cancelled by user.''], finished]
   \<and> num_variations_for_worker example_globals = 5"
  by (simp add: run_def run_text_generation_def example_globals_def example_worker_def
      quit_seen_def signals_def is_remote_call_def upt_rec)

text \<open>
  The amended statement on a batch of five: cancelled at the head of iteration 2, and
  not cancelled.
\<close>

theorem text_result_count_witness:
  "GEMINI_API_KEY_VALID example_globals \<and> operation_type example_worker = ''text''
   \<and> \<not> quit_seen example_worker (cancel_from_variation 2) RunEntry
   \<and> (\<exists>rs. signals (run example_globals (cancel_from_variation 2)
                       example_worker) = [result_ready rs, finished]
          \<and> length rs = 3 \<and> rs ! 2 = ''Batch operation cancelled by user.'')
   \<and> (\<exists>rs. signals (run example_globals (\<lambda>cp. False) example_worker) =
               [result_ready rs, finished] \<and> length rs = 5)"
proof -
  let ?ui = "cancel_from_variation 2"
  have k: "GEMINI_API_KEY_VALID example_globals" by (simp add: example_globals_def)
  have t: "operation_type example_worker = ''text''" by (simp add: example_worker_def)
  have q: "\<not> quit_seen example_worker ?ui RunEntry"
    by (simp add: quit_seen_def example_worker_def cancel_from_variation_def)
  have q': "\<not> quit_seen example_worker (\<lambda>cp. False) RunEntry"
    by (simp add: quit_seen_def example_worker_def cancel_from_variation_def)
  have n: "nat (num_variations_for_worker example_globals) = 5"
    by (simp add: example_globals_def)
  have c: "quit_seen example_worker ?ui (LoopHead 2)
           \<and> (\<forall>i<2. \<not> quit_seen example_worker ?ui (LoopHead i))"
    by (simp add: quit_seen_def example_worker_def cancel_from_variation_def)
  have c': "\<forall>i<5. \<not> quit_seen example_worker (\<lambda>cp. False) (LoopHead i)"
    by (simp add: quit_seen_def example_worker_def cancel_from_variation_def)
  obtain rs where rs: "signals (run example_globals ?ui example_worker) = [result_ready rs, finished]"
    and rk: "\<forall>k < 5. quit_seen example_worker ?ui (LoopHead k)
               \<and> (\<forall>i < k. \<not> quit_seen example_worker ?ui (LoopHead i))
               \<longrightarrow> length rs = k + 1 \<and> rs ! k = ''Batch operation cancelled by user.''"
    using text_result_count [OF k t q] unfolding n by blast
  from rk [rule_format, of 2] c
  have "length rs = 3 \<and> rs ! 2 = ''Batch operation cancelled by user.''"
    by simp
  with rs have A: "\<exists>rs. signals (run example_globals ?ui example_worker) = [result_ready rs, finished]
          \<and> length rs = 3 \<and> rs ! 2 = ''Batch operation cancelled by user.''"
    by blast
  obtain rs' where rs': "signals (run example_globals (\<lambda>cp. False) example_worker) =
       [result_ready rs', finished]"
    and rl: "(\<forall>i < 5. \<not> quit_seen example_worker (\<lambda>cp. False) (LoopHead i)) \<longrightarrow> length rs' = 5"
    using text_result_count [OF k t q'] unfolding n by blast
  from rl c' rs' have B: "\<exists>rs. signals (run example_globals (\<lambda>cp. False) example_worker) =
               [result_ready rs, finished] \<and> length rs = 5"
    by blast
  show ?thesis using k t q A B by blast
qed

section \<open>Uninitialised capabilities (C3)\<close>

text \<open>
  C3, amended. With a valid key and no cancellation at the entry checks: a TEXT job
  whose text model was never initialised attempts no remote call and delivers its
  outcome through \<open>result_ready\<close>, and when it is not cancelled every entry of the list
  is the "API Error" string of its variation carrying the message that names the text
  model; a VISION job whose vision model was never initialised emits \<open>error_occurred\<close>
  with the message that names the vision model, then \<open>finished\<close>, and attempts no
  remote call.
\<close>

theorem uninitialised_capability:
  "(GEMINI_API_KEY_VALID g \<and> operation_type w = ''text'' \<and> text_model g = None
      \<and> \<not> quit_seen w ui RunEntry
    \<longrightarrow> remote_calls (run g ui w) = []
        \<and> (\<exists>rs. run g ui w = [result_ready rs, finished])
        \<and> ((\<forall>cp. \<not> quit_seen w ui cp) \<longrightarrow>
            run g ui w =
              [result_ready
                 (map (\<lambda>i. ''API Error (Text Gen - Variation '' @ str_nat (i + 1) @ ''): ''
                            @ ''Text model ('' @ [CHR 0x27] @ TEXT_MODEL_NAME_TO_TRY g
                            @ [CHR 0x27]
                            @ '') is not initialized. Cannot generate text-based prompt.'')
                    [0 ..< nat (num_variations_for_worker g)]),
               finished]))
   \<and> (GEMINI_API_KEY_VALID g \<and> operation_type w = ''vision'' \<and> vision_model g = None
      \<and> \<not> quit_seen w ui RunEntry \<and> \<not> quit_seen w ui VisionEntry
    \<longrightarrow> run g ui w =
          [error_occurred (''Vision model ('' @ [CHR 0x27] @ VISION_MODEL_NAME_TO_TRY g
                           @ [CHR 0x27] @ '') is not initialized.''),
           finished])"
proof -
  have a: "remote_calls (run g ui w) = [] \<and> (\<exists>rs. run g ui w = [result_ready rs, finished])"
    if "GEMINI_API_KEY_VALID g" "operation_type w = ''text''" "text_model g = None"
      "\<not> quit_seen w ui RunEntry"
  proof -
    have r: "run g ui w = run_text_generation g ui w" using that by (simp add: run_text)
    have "fst (text_loop g ui w [0 ..< nat (num_variations_for_worker g)] []) = []"
      using that(3) by (rule loop_no_model)
    then show ?thesis
      unfolding r by (simp add: run_text_generation_eq remote_calls_def is_remote_call_def)
  qed
  have b: "run g ui w =
              [result_ready
                 (map (\<lambda>i. ''API Error (Text Gen - Variation '' @ str_nat (i + 1) @ ''): ''
                            @ ''Text model ('' @ [CHR 0x27] @ TEXT_MODEL_NAME_TO_TRY g
                            @ [CHR 0x27]
                            @ '') is not initialized. Cannot generate text-based prompt.'')
                    [0 ..< nat (num_variations_for_worker g)]),
               finished]"
    if "GEMINI_API_KEY_VALID g" "operation_type w = ''text''" "text_model g = None"
      "\<forall>cp. \<not> quit_seen w ui cp"
  proof -
    have r: "run g ui w = run_text_generation g ui w" using that by (simp add: run_text)
    have "list_all (\<lambda>i. \<not> quit_seen w ui (LoopHead i) \<and> \<not> quit_seen w ui (CoreEntry i))
            [0 ..< nat (num_variations_for_worker g)]"
      using that(4) by (simp add: list_all_iff)
    from loop_not_cancelled [OF this, of g "[]"]
    have l: "text_loop g ui w [0 ..< nat (num_variations_for_worker g)] [] =
       (concat (map (variation_calls g w) [0 ..< nat (num_variations_for_worker g)]),
        map (variation_result g w) [0 ..< nat (num_variations_for_worker g)])"
      by simp
    have vc: "variation_calls g w = (\<lambda>i. [])"
      using that(3) by (simp add: variation_calls_def fun_eq_iff)
    have vr: "variation_result g w =
       (\<lambda>i. ''API Error (Text Gen - Variation '' @ str_nat (i + 1) @ ''): ''
                            @ ''Text model ('' @ [CHR 0x27] @ TEXT_MODEL_NAME_TO_TRY g
                            @ [CHR 0x27]
                            @ '') is not initialized. Cannot generate text-based prompt.'')"
      using that(3)
      by (simp add: variation_result_def fun_eq_iff api_error_text_def text_model_missing_def)
    show ?thesis unfolding r run_text_generation_eq l vc vr by simp
  qed
  have c: "run g ui w =
          [error_occurred (''Vision model ('' @ [CHR 0x27] @ VISION_MODEL_NAME_TO_TRY g
                           @ [CHR 0x27] @ '') is not initialized.''),
           finished]"
    if "GEMINI_API_KEY_VALID g" "operation_type w = ''vision''" "vision_model g = None"
      "\<not> quit_seen w ui RunEntry" "\<not> quit_seen w ui VisionEntry"
    using that by (simp add: run_vision run_vision_generation_def)
  show ?thesis using a b c by blast
qed

text \<open>
  C3 as stated fails: a TEXT job without a text model ends with \<open>result_ready\<close> carrying
  one "API Error" entry per variation, not with \<open>error_occurred\<close>.
\<close>

theorem uninitialised_capability_counterexample:
  "text_model example_globals_no_text = None
   \<and> run example_globals_no_text (\<lambda>cp. False) example_pair_worker =
     [result_ready
        [''API Error (Text Gen - Variation 1): Text model ('gemini-pro') is not initialized. Cannot generate text-based prompt.'',
         ''API Error (Text Gen - Variation 2): Text model ('gemini-pro') is not initialized. Cannot generate text-based prompt.''],
      finished]"
  by code_simp

text \<open>
  The amended statement at a TEXT job without a text model and at a VISION job without a
  vision model.
\<close>

theorem uninitialised_capability_witness:
  "GEMINI_API_KEY_VALID example_globals_no_text \<and> operation_type example_pair_worker = ''text''
   \<and> text_model example_globals_no_text = None
   \<and> (\<forall>cp. \<not> quit_seen example_pair_worker (\<lambda>cp. False) cp)
   \<and> remote_calls (run example_globals_no_text (\<lambda>cp. False) example_pair_worker) = []
   \<and> GEMINI_API_KEY_VALID example_globals_no_vision
   \<and> operation_type example_vision_worker = ''vision''
   \<and> vision_model example_globals_no_vision = None
   \<and> run example_globals_no_vision (\<lambda>cp. False) example_vision_worker =
       [error_occurred ''Vision model ('gemini-pro-vision') is not initialized.'', finished]"
proof -
  have k: "GEMINI_API_KEY_VALID example_globals_no_text"
    by (simp add: example_globals_no_text_def example_globals_def)
  have t: "operation_type example_pair_worker = ''text''" by (simp add: example_pair_worker_def example_worker_def)
  have m: "text_model example_globals_no_text = None"
    by (simp add: example_globals_no_text_def)
  have q: "\<forall>cp. \<not> quit_seen example_pair_worker (\<lambda>cp. False) cp"
    by (simp add: quit_seen_def example_pair_worker_def example_worker_def)
  have k': "GEMINI_API_KEY_VALID example_globals_no_vision"
    by (simp add: example_globals_no_vision_def example_vision_globals_def example_globals_def)
  have t': "operation_type example_vision_worker = ''vision''"
    by (simp add: example_vision_worker_def)
  have m': "vision_model example_globals_no_vision = None"
    by (simp add: example_globals_no_vision_def)
  have q': "\<forall>cp. \<not> quit_seen example_vision_worker (\<lambda>cp. False) cp"
    by (simp add: quit_seen_def example_vision_worker_def)
  have n: "VISION_MODEL_NAME_TO_TRY example_globals_no_vision = ''gemini-pro-vision''"
    by (simp add: example_globals_no_vision_def example_vision_globals_def example_globals_def)
  have a: "remote_calls (run example_globals_no_text (\<lambda>cp. False) example_pair_worker) = []"
    using uninitialised_capability [of example_globals_no_text example_pair_worker "\<lambda>cp. False"]
      k t m q by blast
  have "run example_globals_no_vision (\<lambda>cp. False) example_vision_worker =
          [error_occurred (''Vision model ('' @ [CHR 0x27]
                           @ VISION_MODEL_NAME_TO_TRY example_globals_no_vision
                           @ [CHR 0x27] @ '') is not initialized.''),
           finished]"
    using uninitialised_capability [of example_globals_no_vision example_vision_worker
        "\<lambda>cp. False"] k' t' m' q' by blast
  then have b: "run example_globals_no_vision (\<lambda>cp. False) example_vision_worker =
       [error_occurred ''Vision model ('gemini-pro-vision') is not initialized.'', finished]"
    unfolding n by simp
  show ?thesis using k t m q a k' t' m' b by blast
qed

section \<open>Preconditions of a VISION job (C8)\<close>

text \<open>
  C8, amended. For a VISION job with a valid key: when cancellation is already requested
  as \<open>run\<close> starts, only \<open>finished\<close> is emitted, with no error; otherwise the job emits
  one \<open>error_occurred\<close> and then \<open>finished\<close>, with "Operation cancelled by user." when
  cancellation is seen at the head of \<open>run_vision_generation\<close>, else with the message
  naming the vision model when that model is unavailable, else with "No image provided
  to vision worker." when there is no image. In none of these cases is a remote call
  attempted.
\<close>

theorem vision_precondition_failures:
  assumes "GEMINI_API_KEY_VALID g" and "operation_type w = ''vision''"
  shows "(quit_seen w ui RunEntry \<longrightarrow> run g ui w = [finished])
    \<and> (\<not> quit_seen w ui RunEntry \<and> quit_seen w ui VisionEntry \<longrightarrow>
         run g ui w = [error_occurred ''Operation cancelled by user.'', finished])
    \<and> (\<not> quit_seen w ui RunEntry \<and> \<not> quit_seen w ui VisionEntry \<and> vision_model g = None \<longrightarrow>
         run g ui w =
           [error_occurred (''Vision model ('' @ [CHR 0x27] @ VISION_MODEL_NAME_TO_TRY g
                            @ [CHR 0x27] @ '') is not initialized.''),
            finished])
    \<and> (\<not> quit_seen w ui RunEntry \<and> \<not> quit_seen w ui VisionEntry \<and> vision_model g \<noteq> None
         \<and> pil_image w = None \<longrightarrow>
         run g ui w = [error_occurred ''No image provided to vision worker.'', finished])
    \<and> (quit_seen w ui RunEntry \<or> quit_seen w ui VisionEntry \<or> vision_model g = None
         \<or> pil_image w = None \<longrightarrow>
         remote_calls (run g ui w) = [])"
proof -
  have a: "run g ui w = [finished]" if "quit_seen w ui RunEntry"
    using assms that by (simp add: run_def)
  have r: "run g ui w = run_vision_generation g ui w" if "\<not> quit_seen w ui RunEntry"
    using assms that by (simp add: run_vision)
  have b: "run g ui w = [error_occurred ''Operation cancelled by user.'', finished]"
    if "\<not> quit_seen w ui RunEntry" "quit_seen w ui VisionEntry"
    using that by (simp add: r run_vision_generation_def)
  have c: "run g ui w =
           [error_occurred (''Vision model ('' @ [CHR 0x27] @ VISION_MODEL_NAME_TO_TRY g
                            @ [CHR 0x27] @ '') is not initialized.''),
            finished]"
    if "\<not> quit_seen w ui RunEntry" "\<not> quit_seen w ui VisionEntry" "vision_model g = None"
    using that by (simp add: r run_vision_generation_def)
  have d: "run g ui w = [error_occurred ''No image provided to vision worker.'', finished]"
    if "\<not> quit_seen w ui RunEntry" "\<not> quit_seen w ui VisionEntry" "vision_model g \<noteq> None"
      "pil_image w = None"
    using that by (auto simp: r run_vision_generation_def)
  have e: "remote_calls (run g ui w) = []"
    if "quit_seen w ui RunEntry \<or> quit_seen w ui VisionEntry \<or> vision_model g = None
         \<or> pil_image w = None"
  proof (cases "quit_seen w ui RunEntry")
    case True
    then show ?thesis by (simp add: a remote_calls_def is_remote_call_def)
  next
    case False
    with that show ?thesis
      by (auto simp: r run_vision_generation_def remote_calls_def is_remote_call_def
          split: option.splits)
  qed
  show ?thesis using a b c d e by blast
qed

text \<open>
  C8 as stated fails: a VISION job with no image whose cancellation is already requested
  when it starts emits \<open>finished\<close> and no error.
\<close>

theorem vision_precondition_failures_counterexample:
  "pil_image (example_vision_worker\<lparr>pil_image := None\<rparr>) = None
   \<and> run example_vision_globals (\<lambda>cp. True) (example_vision_worker\<lparr>pil_image := None\<rparr>) = [finished]"
  by (simp add: run_def example_vision_globals_def example_globals_def example_vision_worker_def quit_seen_def)

text \<open>
  The amended statement at a VISION job with no image, and at one cancelled between the
  two entry checks.
\<close>

theorem vision_precondition_failures_witness:
  "GEMINI_API_KEY_VALID example_vision_globals
   \<and> operation_type (example_vision_worker\<lparr>pil_image := None\<rparr>) = ''vision''
   \<and> \<not> quit_seen (example_vision_worker\<lparr>pil_image := None\<rparr>) (\<lambda>cp. False) RunEntry
   \<and> \<not> quit_seen (example_vision_worker\<lparr>pil_image := None\<rparr>) (\<lambda>cp. False) VisionEntry
   \<and> vision_model example_vision_globals \<noteq> None
   \<and> run example_vision_globals (\<lambda>cp. False) (example_vision_worker\<lparr>pil_image := None\<rparr>) =
       [error_occurred ''No image provided to vision worker.'', finished]
   \<and> remote_calls (run example_vision_globals (\<lambda>cp. False) (example_vision_worker\<lparr>pil_image := None\<rparr>))
       = []
   \<and> quit_seen example_vision_worker (\<lambda>cp. cp \<noteq> RunEntry) VisionEntry
   \<and> run example_vision_globals (\<lambda>cp. cp \<noteq> RunEntry) example_vision_worker =
       [error_occurred ''Operation cancelled by user.'', finished]"
proof -
  let ?w = "example_vision_worker\<lparr>pil_image := None\<rparr>"
  have k: "GEMINI_API_KEY_VALID example_vision_globals"
    by (simp add: example_vision_globals_def example_globals_def)
  have t: "operation_type ?w = ''vision''" by (simp add: example_vision_worker_def)
  have t': "operation_type example_vision_worker = ''vision''"
    by (simp add: example_vision_worker_def)
  have q: "\<not> quit_seen ?w (\<lambda>cp. False) RunEntry" "\<not> quit_seen ?w (\<lambda>cp. False) VisionEntry"
    by (simp_all add: quit_seen_def example_vision_worker_def)
  have m: "vision_model example_vision_globals \<noteq> None" by (simp add: example_vision_globals_def example_globals_def)
  have i: "pil_image ?w = None" by simp
  have q': "\<not> quit_seen example_vision_worker (\<lambda>cp. cp \<noteq> RunEntry) RunEntry"
    "quit_seen example_vision_worker (\<lambda>cp. cp \<noteq> RunEntry) VisionEntry"
    by (simp_all add: quit_seen_def example_vision_worker_def)
  have a: "run example_vision_globals (\<lambda>cp. False) ?w =
       [error_occurred ''No image provided to vision worker.'', finished]"
    using vision_precondition_failures [OF k t, of "\<lambda>cp. False"] q m i by blast
  have b: "remote_calls (run example_vision_globals (\<lambda>cp. False) ?w) = []"
    using vision_precondition_failures [OF k t, of "\<lambda>cp. False"] i by blast
  have c: "run example_vision_globals (\<lambda>cp. cp \<noteq> RunEntry) example_vision_worker =
       [error_occurred ''Operation cancelled by user.'', finished]"
    using vision_precondition_failures [OF k t', of "\<lambda>cp. cp \<noteq> RunEntry"] q' by blast
  show ?thesis using k t q m a b c q'(2) by blast
qed

section \<open>Single-flight admission (C4)\<close>

text \<open>
  While the thread runs, a submission is rejected and the window, with its thread and
  its worker, stays as it is; the global \<open>num_variations_for_worker\<close> is overwritten
  all the same.
\<close>

lemma trigger_while_running:
  "gemini_thread win = Some t \<Longrightarrow> isRunning t \<Longrightarrow>
   trigger_gemini_operation q c num_vars op_type img clear (g, win) =
     (busy, g\<lparr>num_variations_for_worker := num_vars\<rparr>, win)"
  by (simp add: trigger_gemini_operation_def)

lemma trigger_when_idle:
  "gemini_thread win = None \<Longrightarrow>
   fst (trigger_gemini_operation q c num_vars op_type img clear (g, win)) = started
   \<and> gemini_thread (snd (snd (trigger_gemini_operation q c num_vars op_type img clear (g, win))))
       = Some \<lparr>isRunning = True\<rparr>"
  by (simp add: trigger_gemini_operation_def Let_def)

lemma after_first_submit_eq:
  "after_first_submit =
     (started, example_globals\<lparr>num_variations_for_worker := 3\<rparr>,
      \<lparr>gemini_thread = Some \<lparr>isRunning = True\<rparr>,
       gemini_worker =
         Some \<lparr>query = ''Generate from core idea: a fox'', context_field = ''Basic Prompt'',
               num_variations = 3, operation_type = ''text'', pil_image = None,
               quit_requested = False\<rparr>,
       is_new_batch_start = Some False, output_text_edit = [], generating = True,
       status_bar = ''Starting Basic Prompt generation (3 var)...''\<rparr>)"
proof -
  have "str_nat 3 = ''3''" by code_simp
  then show ?thesis
    by (simp add: after_first_submit_def trigger_gemini_operation_def idle_window_def Let_def)
qed

text \<open>
  C4 at a batch of three followed by a submission of one variation while the batch runs.
  The second submission is rejected and creates no thread or worker, but it sets the
  global that the running job reads to 1: the payload of the job's variation 1 is then
  built without its variation instruction, and the result handler shows the first of
  the three results only.
\<close>

theorem rejected_submission_changes_running_job:
  "fst after_first_submit = started
   \<and> num_variations_for_worker (fst (snd after_first_submit)) = 3
   \<and> fst after_second_submit = busy
   \<and> snd (snd after_second_submit) = snd (snd after_first_submit)
   \<and> num_variations_for_worker (fst (snd after_second_submit)) = 1
   \<and> gemini_prompt_payload (num_variations_for_worker (fst (snd after_second_submit)))
         ''Generate from core idea: a fox'' ''Basic Prompt'' 1
       \<noteq> gemini_prompt_payload (num_variations_for_worker (fst (snd after_first_submit)))
           ''Generate from core idea: a fox'' ''Basic Prompt'' 1
   \<and> output_shown (handle_gemini_results
                     (num_variations_for_worker (fst (snd after_second_submit)))
                     [''a red fox'', ''a grey fox'', ''a white fox'']) = ''a red fox''"
proof -
  have s: "after_second_submit =
     (busy, example_globals\<lparr>num_variations_for_worker := 1\<rparr>, snd (snd after_first_submit))"
    unfolding after_second_submit_def
    by (simp add: after_first_submit_eq trigger_gemini_operation_def)
  have p: "gemini_prompt_payload 1 ''Generate from core idea: a fox'' ''Basic Prompt'' 1
       \<noteq> gemini_prompt_payload 3 ''Generate from core idea: a fox'' ''Basic Prompt'' 1"
    by (simp add: gemini_prompt_payload_def variation_modifier_def)
  have h: "output_shown (handle_gemini_results 1 [''a red fox'', ''a grey fox'', ''a white fox''])
             = ''a red fox''"
    by (simp add: handle_gemini_results_def Let_def)
  show ?thesis
    unfolding s using p h by (simp add: after_first_submit_eq)
qed

section \<open>Classifying the entries of a batch (C10)\<close>

text \<open>
  C10. In a batch, the handler marks an entry as failed exactly when it contains
  "API Error" or "Operation cancelled", compared case-sensitively, and warns exactly when
  some entry does. The sentinel that the loop appends on cancellation,
  "Batch operation cancelled by user.", contains neither (its "operation" is in lower
  case), so a list of clean entries followed by the sentinel is reported as a batch
  generated successfully.
\<close>

theorem batch_handler_classification:
  assumes "1 < nvars" and "results \<noteq> []"
  shows "batch_warning (handle_gemini_results nvars results) =
           (\<exists>t \<in> set results. py_in ''API Error'' t \<or> py_in ''Operation cancelled'' t)
    \<and> output_shown (handle_gemini_results nvars results) =
        strip (join ''\<newline>\<newline>''
          (map (\<lambda>(i, t).
                  if py_in ''API Error'' t \<or> py_in ''Operation cancelled'' t
                  then ''--- Variation '' @ str_nat (i + 1) @ '' FAILED ---\<newline>'' @ t @ ''\<newline>''
                  else ''--- Prompt Variation '' @ str_nat (i + 1) @ '' ---\<newline>'' @ t @ ''\<newline>'')
             (enumerate 0 results)))
    \<and> \<not> py_in ''API Error'' ''Batch operation cancelled by user.''
    \<and> \<not> py_in ''Operation cancelled'' ''Batch operation cancelled by user.''
    \<and> py_in ''operation cancelled'' ''Batch operation cancelled by user.''
    \<and> (quit_seen w ui (LoopHead i) \<longrightarrow>
         snd (text_loop g ui w (i # rest) acc) = acc @ [''Batch operation cancelled by user.''])
    \<and> ((\<forall>t \<in> set acc. \<not> py_in ''API Error'' t \<and> \<not> py_in ''Operation cancelled'' t) \<longrightarrow>
         \<not> batch_warning (handle_gemini_results nvars
                            (acc @ [''Batch operation cancelled by user.'']))
         \<and> status_shown (handle_gemini_results nvars
                           (acc @ [''Batch operation cancelled by user.''])) =
             ''Batch of '' @ str_nat (nat nvars) @ '' prompts generated successfully.'')"
proof -
  have a: "batch_warning (handle_gemini_results nvars results) =
           (\<exists>t \<in> set results. py_in ''API Error'' t \<or> py_in ''Operation cancelled'' t)"
    using assms by (simp add: handle_gemini_results_def Let_def list_ex_iff entry_failed_def)
  have op: "(\<lambda>(i, t). output_part i t) =
     (\<lambda>(i, t).
                  if py_in ''API Error'' t \<or> py_in ''Operation cancelled'' t
                  then ''--- Variation '' @ str_nat (i + 1) @ '' FAILED ---\<newline>'' @ t @ ''\<newline>''
                  else ''--- Prompt Variation '' @ str_nat (i + 1) @ '' ---\<newline>'' @ t @ ''\<newline>'')"
    by (simp add: fun_eq_iff output_part_def entry_failed_def)
  have b: "output_shown (handle_gemini_results nvars results) =
        strip (join ''\<newline>\<newline>''
          (map (\<lambda>(i, t).
                  if py_in ''API Error'' t \<or> py_in ''Operation cancelled'' t
                  then ''--- Variation '' @ str_nat (i + 1) @ '' FAILED ---\<newline>'' @ t @ ''\<newline>''
                  else ''--- Prompt Variation '' @ str_nat (i + 1) @ '' ---\<newline>'' @ t @ ''\<newline>'')
             (enumerate 0 results)))"
    using assms unfolding op [symmetric] by (simp add: handle_gemini_results_def Let_def)
  have c1: "\<not> py_in ''API Error'' ''Batch operation cancelled by user.''" by code_simp
  have c2: "\<not> py_in ''Operation cancelled'' ''Batch operation cancelled by user.''" by code_simp
  have c3: "py_in ''operation cancelled'' ''Batch operation cancelled by user.''" by code_simp
  have d: "snd (text_loop g ui w (i # rest) acc) = acc @ [''Batch operation cancelled by user.'']"
    if "quit_seen w ui (LoopHead i)"
    using that by simp
  have e: "\<not> batch_warning (handle_gemini_results nvars
                            (acc @ [''Batch operation cancelled by user.'']))
         \<and> status_shown (handle_gemini_results nvars
                           (acc @ [''Batch operation cancelled by user.''])) =
             ''Batch of '' @ str_nat (nat nvars) @ '' prompts generated successfully.''"
    if "\<forall>t \<in> set acc. \<not> py_in ''API Error'' t \<and> \<not> py_in ''Operation cancelled'' t"
  proof -
    have "\<not> list_ex entry_failed (acc @ [''Batch operation cancelled by user.''])"
      using that c1 c2 by (auto simp: list_ex_iff entry_failed_def)
    then show ?thesis using assms(1) by (simp add: handle_gemini_results_def Let_def)
  qed
  show ?thesis using a b c1 c2 c3 d e by blast
qed

text \<open>
  A batch of five cancelled at the head of iteration 2, and a list with an entry
  cancelled inside \<open>_generate_single_prompt_core\<close>.
\<close>

theorem batch_handler_classification_witness:
  "(1::int) < 5
   \<and> [''a red fox'', ''a red fox'', ''Batch operation cancelled by user.''] \<noteq> []
   \<and> \<not> py_in ''API Error'' ''a red fox'' \<and> \<not> py_in ''Operation cancelled'' ''a red fox''
   \<and> \<not> batch_warning (handle_gemini_results 5
                        [''a red fox'', ''a red fox'', ''Batch operation cancelled by user.''])
   \<and> status_shown (handle_gemini_results 5
                     [''a red fox'', ''a red fox'', ''Batch operation cancelled by user.'']) =
       ''Batch of 5 prompts generated successfully.''
   \<and> batch_warning (handle_gemini_results 5 [''a red fox'', ''Operation cancelled by user.''])"
proof -
  have n: "(1::int) < 5" by simp
  have ne: "[''a red fox'', ''a red fox'', ''Batch operation cancelled by user.''] \<noteq> []"
    "[''a red fox'', ''Operation cancelled by user.''] \<noteq> []" by simp_all
  have f: "\<not> py_in ''API Error'' ''a red fox''" "\<not> py_in ''Operation cancelled'' ''a red fox''"
    "py_in ''Operation cancelled'' ''Operation cancelled by user.''"
    by code_simp+
  then have fa: "\<forall>t \<in> set [''a red fox'', ''a red fox''].
         \<not> py_in ''API Error'' t \<and> \<not> py_in ''Operation cancelled'' t"
    by simp
  have s5: "str_nat (nat 5) = ''5''" by code_simp
  have "\<not> batch_warning (handle_gemini_results 5
                        ([''a red fox'', ''a red fox''] @ [''Batch operation cancelled by user.'']))
     \<and> status_shown (handle_gemini_results 5
                     ([''a red fox'', ''a red fox''] @ [''Batch operation cancelled by user.''])) =
       ''Batch of '' @ str_nat (nat 5) @ '' prompts generated successfully.''"
    using batch_handler_classification [OF n ne(1), where acc = "[''a red fox'', ''a red fox'']"] fa
    by blast
  then have a: "\<not> batch_warning (handle_gemini_results 5
                        [''a red fox'', ''a red fox'', ''Batch operation cancelled by user.''])
   \<and> status_shown (handle_gemini_results 5
                     [''a red fox'', ''a red fox'', ''Batch operation cancelled by user.'']) =
       ''Batch of 5 prompts generated successfully.''"
    unfolding s5 by simp
  have "batch_warning (handle_gemini_results 5 [''a red fox'', ''Operation cancelled by user.''])
        = (\<exists>t \<in> set [''a red fox'', ''Operation cancelled by user.''].
             py_in ''API Error'' t \<or> py_in ''Operation cancelled'' t)"
    using batch_handler_classification [OF n ne(2)] by blast
  then have b: "batch_warning (handle_gemini_results 5
                    [''a red fox'', ''Operation cancelled by user.''])"
    using f(3) by simp
  show ?thesis using n ne(1) f(1) f(2) a b by blast
qed

end
